theory Spec2Isabelle
  imports Complex_Main "HOL-Library.Word" "HOL-Library.Log_Nat" "HOL-Library.AList"
begin

section \<open>Python values: exceptions and floats\<close>

text \<open>
  Every exception the modelled code can raise is a value of \<open>error\<close>; a computation that
  may raise returns \<open>error + 'a\<close>, with \<open>Inl\<close> for the exception. \<open>RpcError\<close> stands for
  whatever the ledger client raises (network failure, rejected request).
\<close>

datatype error = OverflowError | ValueError | IndexError | TypeError | RpcError

text \<open>
  A Python float is an IEEE 754 binary64 number. A finite float is modelled by the
  rational number it denotes; \<open>round_double\<close> rounds a rational to the nearest binary64
  value (ties to even, gradual underflow below \<open>2 powi (- 1022)\<close>) with the exponent left
  unbounded above, so that a result of magnitude \<open>2 ^ 1024\<close> or more is the overflow case.
\<close>

definition floor_log2 :: "rat \<Rightarrow> int" where
  \<comment> \<open>for \<open>0 < x\<close>: the \<open>k\<close> with \<open>2 powi k \<le> x < 2 powi (k + 1)\<close>\<close>
  "floor_log2 x = (if 1 \<le> x then bitlen \<lfloor>x\<rfloor> - 1 else - bitlen (\<lceil>1 / x\<rceil> - 1))"

definition round_half_even :: "rat \<Rightarrow> int" where
  "round_half_even q =
     (let f = \<lfloor>q\<rfloor>; r = q - of_int f
      in if r < 1 / 2 then f else if 1 / 2 < r then f + 1 else if even f then f else f + 1)"

definition round_double :: "rat \<Rightarrow> rat" where
  "round_double x =
     (if x = 0 then 0
      else (let e = max (floor_log2 \<bar>x\<bar> - 52) (- 1074);
                m = round_half_even (\<bar>x\<bar> / 2 powi e)
            in sgn x * of_int m * 2 powi e))"

definition overflows :: "rat \<Rightarrow> bool" where
  \<comment> \<open>the magnitude is \<open>2 ^ 1024\<close> or more: beyond the largest finite binary64 number\<close>
  "overflows r = (r \<noteq> 0 \<and> 1024 \<le> floor_log2 \<bar>r\<bar>)"

datatype pyfloat = Finite rat | Infinite

definition float_of_int :: "int \<Rightarrow> error + rat" where
  \<comment> \<open>the conversion of an \<open>int\<close> operand in \<open>int * float\<close>; raises when the int is too large\<close>
  "float_of_int n =
     (let r = round_double (of_int n) in if overflows r then Inl OverflowError else Inr r)"

definition float_div :: "rat \<Rightarrow> rat \<Rightarrow> rat" where
  \<comment> \<open>\<open>x / y\<close> for a finite \<open>x\<close> and a \<open>y\<close> of magnitude at least 1 (here always \<open>100.0\<close>)\<close>
  "float_div x y = round_double (x / y)"

definition float_mul :: "rat \<Rightarrow> rat \<Rightarrow> pyfloat" where
  "float_mul x y = (let r = round_double (x * y) in if overflows r then Infinite else Finite r)"

definition trunc :: "rat \<Rightarrow> int" where
  "trunc x = (if 0 \<le> x then \<lfloor>x\<rfloor> else \<lceil>x\<rceil>)"

definition int_of_float :: "pyfloat \<Rightarrow> error + int" where
  \<comment> \<open>\<open>int(f)\<close>: truncation towards zero; \<open>int(inf)\<close> raises OverflowError\<close>
  "int_of_float f = (case f of Finite x \<Rightarrow> Inr (trunc x) | Infinite \<Rightarrow> Inl OverflowError)"

definition percentage_of :: "int \<Rightarrow> rat \<Rightarrow> error + int" where
  \<comment> \<open>the expression \<open>int(amount * (p / 100.0))\<close> of utils.py and transfer_processor.py\<close>
  "percentage_of amount p =
     (case float_of_int amount of
        Inl e \<Rightarrow> Inl e
      | Inr a \<Rightarrow> int_of_float (float_mul a (float_div p 100)))"

section \<open>utils.py\<close>

fun percentage_amounts :: "int \<Rightarrow> rat list \<Rightarrow> error + int list" where
  \<comment> \<open>\<open>[int(amount * (p / 100.0)) for p in percentages]\<close>\<close>
  "percentage_amounts amount [] = Inr []"
| "percentage_amounts amount (p # ps) =
     (case percentage_of amount p of
        Inl e \<Rightarrow> Inl e
      | Inr a \<Rightarrow> (case percentage_amounts amount ps of Inl e \<Rightarrow> Inl e | Inr as \<Rightarrow> Inr (a # as)))"

definition split_amount_by_percentage :: "int \<Rightarrow> rat list \<Rightarrow> error + int list" where
  \<comment> \<open>the check of the percentages' sum only logs a warning; it does not change the result\<close>
  "split_amount_by_percentage amount percentages =
     (case percentage_amounts amount percentages of
        Inl e \<Rightarrow> Inl e
      | Inr amounts \<Rightarrow>
          (let total_allocated = sum_list amounts
           in if total_allocated \<noteq> amount
              then (if amounts = [] then Inl IndexError
                    else Inr (butlast amounts @ [last amounts + (amount - total_allocated)]))
              else Inr amounts))"

section \<open>The ledger client and the configuration\<close>

text \<open>
  Two libraries have a class for keys and a class for account metas. transfer_processor.py
  builds its keys with solana-py's \<open>PublicKey\<close> and its metas with solana-py's
  \<open>AccountMeta\<close> (imported from \<open>solana.publickey\<close> and \<open>solana.transaction\<close>), and the
  key pair's \<open>public_key\<close> is a solana-py key too; the instruction class it imports
  is solders' \<open>Instruction\<close>, whose constructor accepts solders' \<open>Pubkey\<close> and solders'
  \<open>AccountMeta\<close> only and raises TypeError on an object of any other class. An object
  carries the library of its class; a key is held as its base58 text.
\<close>

datatype library = Solana_py | Solders

record Key =
  key_class :: library
  key_text :: string

record AccountMeta =
  meta_class :: library
  pubkey :: Key
  is_signer :: bool
  is_writable :: bool

record Instruction =
  program_id :: Key
  accounts :: "AccountMeta list"
  data :: "8 word list"

record Transaction =
  recent_blockhash :: string
  instructions :: "Instruction list"

definition solders_Instruction :: "Key \<Rightarrow> AccountMeta list \<Rightarrow> 8 word list \<Rightarrow> error + Instruction" where
  \<comment> \<open>the constructor \<open>Instruction(program_id, accounts, data)\<close> of solders\<close>
  "solders_Instruction program metas bytes =
     (if key_class program = Solders
         \<and> list_all (\<lambda>m. meta_class m = Solders \<and> key_class (pubkey m) = Solders) metas
      then Inr \<lparr>program_id = program, accounts = metas, data = bytes\<rparr>
      else Inl TypeError)"

text \<open>
  Transaction records as the ledger returns them and transaction_monitor.py reads them.
  A field the code reads with a default (\<open>.get(key, default)\<close>) is optional, \<open>None\<close> for
  an absent key. The amount under \<open>uiTokenAmount\<close> is a decimal numeral in the ledger's
  answers; the record holds the integer that \<open>int(...)\<close> makes of it, and \<open>accountIndex\<close>
  is a position in the account-key list.
\<close>

record RawInstruction =
  programId :: "string option"
  ix_data :: "string option"

record TokenBalance =
  accountIndex :: nat
  mint :: "string option"
  uiTokenAmount :: "int option"

record RawTransaction =
  err :: "string option"
  preTokenBalances :: "TokenBalance list"
  postTokenBalances :: "TokenBalance list"
  message_instructions :: "RawInstruction list"
  accountKeys :: "string list"
  signatures :: "string list option"
  blockTime :: "int option"

record SigInfo =
  signature :: string
  slot :: nat

record TransferDetails =
  transaction_id :: string
  destination :: string
  amount :: int
  timestamp :: int

record Config =
  MONITORED_ACCOUNT :: string
  NEXACOIN_MINT :: string
  BURN_PERCENTAGE :: rat
  TREASURY_PERCENTAGE :: rat
  FEE_PERCENTAGE :: rat
  BURN_ADDRESS :: string
  TREASURY_ADDRESS :: string
  FEE_ADDRESS :: string
  MIN_TRANSFER_AMOUNT :: int
  CONFIRMATION_TIMEOUT :: int
  POLLING_INTERVAL :: rat
  ERROR_RETRY_INTERVAL :: rat

text \<open>
  The ledger is outside the program. Its answers are functions of a world \<open>'w\<close> that
  every call may change; a call that raises answers \<open>Inl\<close>. The fields are the methods of
  \<open>SolanaClient\<close> (solana_client.py wraps each library call, logs and re-raises), the
  text of the key pair's public key, the check of solana-py's \<open>PublicKey\<close> constructor,
  which raises on text that is not a key, and the wall clock. \<open>confirm_transaction\<close> polls until the
  transaction is confirmed or the timeout has passed and catches every exception, so
  its answer is a \<open>bool\<close>: \<open>False\<close> is the timeout.
\<close>

record 'w SolanaClient =
  get_token_accounts_by_owner :: "string \<Rightarrow> string \<Rightarrow> 'w \<Rightarrow> (error + string list) \<times> 'w"
  get_signatures_for_address :: "string \<Rightarrow> string option \<Rightarrow> nat \<Rightarrow> 'w \<Rightarrow> (error + SigInfo list) \<times> 'w"
  get_transaction :: "string \<Rightarrow> 'w \<Rightarrow> (error + RawTransaction option) \<times> 'w"
  send_transaction :: "Transaction \<Rightarrow> 'w \<Rightarrow> (error + string) \<times> 'w"
  confirm_transaction :: "string \<Rightarrow> int \<Rightarrow> 'w \<Rightarrow> bool \<times> 'w"
  get_recent_blockhash :: "'w \<Rightarrow> (error + string) \<times> 'w"
  keypair_public_key :: string
  PublicKey :: "string \<Rightarrow> error + string"
  time_time :: "'w \<Rightarrow> rat"

text \<open>
  What the program does to the outside is recorded, in order, in a trace: the client
  calls with their arguments, the calls of the instruction constructor with theirs, the
  sleeps, the calls of \<open>process_transfer\<close> and the log lines. A send or confirm call
  carries the \<open>tx_type\<close> of the loop iteration that makes it, and a call of
  \<open>process_transfer\<close> the id of the listed record (\<open>sig_info["signature"]\<close>) it is made for.
\<close>

datatype log_entry =
    Processing_transfer int string string
  | Below_minimum_threshold int
  | Redistribution_plan int int int
  | Error_processing_transfer error
  | No_token_accounts_found string
  | Error_finding_token_account string error
  | Failed_to_find_all_token_accounts
  | Transaction_successful string int string
  | Transaction_timed_out string
  | Error_executing_transaction string error
  | Error_executing_redistribution error
  | Error_building_transaction error
  | Error_getting_token_accounts error
  | Monitoring_token_accounts nat string
  | Initial_signature_set string
  | Detected_incoming_transfer int string
  | Error_checking_transactions string error
  | Token_accounts_updated nat

datatype event =
    Call_get_token_accounts_by_owner string string
  | Call_get_signatures_for_address string "string option" nat
  | Call_get_transaction string
  | Call_get_recent_blockhash
  | Call_Instruction Key "AccountMeta list" "8 word list"
  | Call_send_transaction string Transaction
  | Call_confirm_transaction string string int
  | Call_process_transfer string TransferDetails
  | Sleep rat
  | Log log_entry

record 'w state =
  world :: 'w
  trace :: "event list"
  last_signature :: "string option"
  token_accounts :: "string list"

definition emit :: "event \<Rightarrow> 'w state \<Rightarrow> 'w state" where
  "emit e s = s\<lparr>trace := trace s @ [e]\<rparr>"

definition call :: "event \<Rightarrow> ('w \<Rightarrow> 'a \<times> 'w) \<Rightarrow> 'w state \<Rightarrow> 'a \<times> 'w state" where
  \<comment> \<open>a client call: recorded, answered by the world, which it may change\<close>
  "call e f s = (case f (world s) of (r, w) \<Rightarrow> (r, (emit e s)\<lparr>world := w\<rparr>))"

section \<open>transfer_processor.py\<close>

definition token_program_id :: string where
  "token_program_id = ''TokenkegQfeZyiNwAJbNbGKPFXCWuBvf9Ss623VQ5DA''"

fun le_bytes :: "nat \<Rightarrow> int \<Rightarrow> 8 word list" where
  "le_bytes 0 n = []"
| "le_bytes (Suc k) n = word_of_int n # le_bytes k (n div 256)"

definition to_bytes :: "int \<Rightarrow> nat \<Rightarrow> error + 8 word list" where
  \<comment> \<open>\<open>n.to_bytes(length, byteorder='little')\<close>, unsigned: raises on a negative or too large \<open>n\<close>\<close>
  "to_bytes n len = (if n < 0 \<or> 2 ^ (8 * len) \<le> n then Inl OverflowError else Inr (le_bytes len n))"

fun from_bytes :: "8 word list \<Rightarrow> int" where
  \<comment> \<open>the unsigned integer a little-endian byte string denotes\<close>
  "from_bytes [] = 0"
| "from_bytes (b # bs) = uint b + 256 * from_bytes bs"

definition solana_py_key :: "string \<Rightarrow> Key" where
  "solana_py_key text = \<lparr>key_class = Solana_py, key_text = text\<rparr>"

definition build_token_transfer_transaction ::
  "'w SolanaClient \<Rightarrow> string \<Rightarrow> string \<Rightarrow> int \<Rightarrow> 'w state \<Rightarrow> (error + Transaction) \<times> 'w state" where
  \<comment> \<open>whatever the body raises is logged and raised again\<close>
  "build_token_transfer_transaction c source dest amt s =
     (case call Call_get_recent_blockhash (get_recent_blockhash c) s of
        (Inl e, s1) \<Rightarrow> (Inl e, emit (Log (Error_building_transaction e)) s1)
      | (Inr blockhash, s1) \<Rightarrow>
          (case PublicKey c token_program_id of
             Inl e \<Rightarrow> (Inl e, emit (Log (Error_building_transaction e)) s1)
           | Inr program_text \<Rightarrow>
          (case PublicKey c source of
             Inl e \<Rightarrow> (Inl e, emit (Log (Error_building_transaction e)) s1)
           | Inr source_text \<Rightarrow>
          (case PublicKey c dest of
             Inl e \<Rightarrow> (Inl e, emit (Log (Error_building_transaction e)) s1)
           | Inr dest_text \<Rightarrow>
          (case to_bytes amt 8 of
             Inl e \<Rightarrow> (Inl e, emit (Log (Error_building_transaction e)) s1)
           | Inr amount_bytes \<Rightarrow>
              (let token_program = solana_py_key program_text;
                   metas =
                     [\<lparr>meta_class = Solana_py, pubkey = solana_py_key source_text,
                       is_signer = False, is_writable = True\<rparr>,
                      \<lparr>meta_class = Solana_py, pubkey = solana_py_key dest_text,
                       is_signer = False, is_writable = True\<rparr>,
                      \<lparr>meta_class = Solana_py, pubkey = solana_py_key (keypair_public_key c),
                       is_signer = True, is_writable = False\<rparr>];
                   bytes = 3 # amount_bytes;
                   s2 = emit (Call_Instruction token_program metas bytes) s1
               in case solders_Instruction token_program metas bytes of
                    Inl e \<Rightarrow> (Inl e, emit (Log (Error_building_transaction e)) s2)
                  | Inr instruction \<Rightarrow>
                      (Inr \<lparr>recent_blockhash = blockhash, instructions = [instruction]\<rparr>, s2)))))))"

definition find_token_account_for_owner ::
  "'w SolanaClient \<Rightarrow> Config \<Rightarrow> string \<Rightarrow> 'w state \<Rightarrow> string option \<times> 'w state" where
  "find_token_account_for_owner c cfg owner s =
     (case call (Call_get_token_accounts_by_owner owner (NEXACOIN_MINT cfg))
             (get_token_accounts_by_owner c owner (NEXACOIN_MINT cfg)) s of
        (Inl e, s1) \<Rightarrow> (None, emit (Log (Error_finding_token_account owner e)) s1)
      | (Inr [], s1) \<Rightarrow> (None, emit (Log (No_token_accounts_found owner)) s1)
      | (Inr (account # _), s1) \<Rightarrow> (Some account, s1))"

definition truthy :: "string option \<Rightarrow> bool" where
  \<comment> \<open>Python truth of a value that is \<open>None\<close> or a string\<close>
  "truthy v = (v \<noteq> None \<and> v \<noteq> Some [])"

type_synonym leg = "string \<times> Transaction \<times> int"

definition build_leg ::
  "'w SolanaClient \<Rightarrow> string \<Rightarrow> string \<Rightarrow> string \<Rightarrow> int \<Rightarrow> leg list \<Rightarrow> 'w state
     \<Rightarrow> (error + leg list) \<times> 'w state" where
  \<comment> \<open>one of the three blocks \<open>if x_amount > 0: x_tx = build(...); transactions.append(...)\<close>\<close>
  "build_leg c tx_type source dest amt transactions s =
     (if 0 < amt
      then (case build_token_transfer_transaction c source dest amt s of
              (Inl e, s1) \<Rightarrow> (Inl e, s1)
            | (Inr tx, s1) \<Rightarrow> (Inr (transactions @ [(tx_type, tx, amt)]), s1))
      else (Inr transactions, s))"

fun execute_transactions ::
  "'w SolanaClient \<Rightarrow> Config \<Rightarrow> leg list \<Rightarrow> bool \<Rightarrow> 'w state \<Rightarrow> bool \<times> 'w state" where
  \<comment> \<open>the loop \<open>for tx_type, transaction, amount in transactions\<close>\<close>
  "execute_transactions c cfg [] success s = (success, s)"
| "execute_transactions c cfg ((tx_type, tx, amt) # rest) success s =
     (case call (Call_send_transaction tx_type tx) (send_transaction c tx) s of
        (Inl e, s1) \<Rightarrow>
          execute_transactions c cfg rest False
            (emit (Sleep 1) (emit (Log (Error_executing_transaction tx_type e)) s1))
      | (Inr sig, s1) \<Rightarrow>
          (case call (Call_confirm_transaction tx_type sig (CONFIRMATION_TIMEOUT cfg))
                  (confirm_transaction c sig (CONFIRMATION_TIMEOUT cfg)) s1 of
             (confirmed, s2) \<Rightarrow>
               if confirmed
               then execute_transactions c cfg rest success
                      (emit (Sleep 1) (emit (Log (Transaction_successful tx_type amt sig)) s2))
               else execute_transactions c cfg rest False
                      (emit (Sleep 1) (emit (Log (Transaction_timed_out tx_type)) s2))))"

definition build_transactions ::
  "'w SolanaClient \<Rightarrow> Config \<Rightarrow> string \<Rightarrow> int \<Rightarrow> int \<Rightarrow> int \<Rightarrow> 'w state
     \<Rightarrow> (error + leg list option) \<times> 'w state" where
  \<comment> \<open>execute_redistribution up to its loop: the three look-ups, then the three builds;
      \<open>Inr None\<close> is the early \<open>return False\<close> when a token account is missing\<close>
  "build_transactions c cfg source_token_account burn_amount treasury_amount fee_amount s =
     (case find_token_account_for_owner c cfg (BURN_ADDRESS cfg) s of (burn_token_account, s1) \<Rightarrow>
      case find_token_account_for_owner c cfg (TREASURY_ADDRESS cfg) s1 of (treasury_token_account, s2) \<Rightarrow>
      case find_token_account_for_owner c cfg (FEE_ADDRESS cfg) s2 of (fee_token_account, s3) \<Rightarrow>
        if \<not> (truthy burn_token_account \<and> truthy treasury_token_account \<and> truthy fee_token_account)
        then (Inr None, emit (Log Failed_to_find_all_token_accounts) s3)
        else
          (case build_leg c ''Burn'' source_token_account (the burn_token_account) burn_amount [] s3 of
             (Inl e, s4) \<Rightarrow> (Inl e, s4)
           | (Inr txs1, s4) \<Rightarrow>
          (case build_leg c ''Treasury'' source_token_account (the treasury_token_account)
                  treasury_amount txs1 s4 of
             (Inl e, s5) \<Rightarrow> (Inl e, s5)
           | (Inr txs2, s5) \<Rightarrow>
          (case build_leg c ''Fee'' source_token_account (the fee_token_account) fee_amount txs2 s5 of
             (Inl e, s6) \<Rightarrow> (Inl e, s6)
           | (Inr txs3, s6) \<Rightarrow> (Inr (Some txs3), s6)))))"

definition execute_redistribution ::
  "'w SolanaClient \<Rightarrow> Config \<Rightarrow> string \<Rightarrow> int \<Rightarrow> int \<Rightarrow> int \<Rightarrow> 'w state \<Rightarrow> bool \<times> 'w state" where
  "execute_redistribution c cfg source_token_account burn_amount treasury_amount fee_amount s =
     (case build_transactions c cfg source_token_account burn_amount treasury_amount fee_amount s of
        (Inl e, s1) \<Rightarrow> (False, emit (Log (Error_executing_redistribution e)) s1)
      | (Inr None, s1) \<Rightarrow> (False, s1)
      | (Inr (Some transactions), s1) \<Rightarrow> execute_transactions c cfg transactions True s1)"

definition redistribution_amounts :: "Config \<Rightarrow> int \<Rightarrow> error + int \<times> int \<times> int" where
  \<comment> \<open>process_transfer, from "Calculate redistribution amounts" to the adjustment of the fee\<close>
  "redistribution_amounts cfg amt =
     (case percentage_of amt (BURN_PERCENTAGE cfg) of
        Inl e \<Rightarrow> Inl e
      | Inr burn_amount \<Rightarrow>
     (case percentage_of amt (TREASURY_PERCENTAGE cfg) of
        Inl e \<Rightarrow> Inl e
      | Inr treasury_amount \<Rightarrow>
     (case percentage_of amt (FEE_PERCENTAGE cfg) of
        Inl e \<Rightarrow> Inl e
      | Inr fee_amount \<Rightarrow>
          (let total = burn_amount + treasury_amount + fee_amount
           in if amt < total
              then Inr (burn_amount, treasury_amount, fee_amount - (total - amt))
              else Inr (burn_amount, treasury_amount, fee_amount)))))"

definition process_transfer ::
  "'w SolanaClient \<Rightarrow> Config \<Rightarrow> TransferDetails \<Rightarrow> 'w state \<Rightarrow> bool \<times> 'w state" where
  "process_transfer c cfg transfer_details s =
     (let s1 = emit (Log (Processing_transfer (amount transfer_details)
                  (destination transfer_details) (transaction_id transfer_details))) s
      in if amount transfer_details < MIN_TRANSFER_AMOUNT cfg
         then (False, emit (Log (Below_minimum_threshold (amount transfer_details))) s1)
         else (case redistribution_amounts cfg (amount transfer_details) of
                 Inl e \<Rightarrow> (False, emit (Log (Error_processing_transfer e)) s1)
               | Inr (burn_amount, treasury_amount, fee_amount) \<Rightarrow>
                   execute_redistribution c cfg (destination transfer_details)
                     burn_amount treasury_amount fee_amount
                     (emit (Log (Redistribution_plan burn_amount treasury_amount fee_amount)) s1)))"

text \<open>
  The three ways one leg of the loop can end, and the events each leaves in the trace:
  the send raised, the confirmation arrived, or the confirmation timed out.
\<close>

datatype outcome = Confirmed string | TimedOut string | SubmissionError error

definition leg_events :: "Config \<Rightarrow> leg \<Rightarrow> outcome \<Rightarrow> event list" where
  "leg_events cfg l out =
     (case l of (tx_type, tx, amt) \<Rightarrow>
        (case out of
           SubmissionError e \<Rightarrow>
             [Call_send_transaction tx_type tx, Log (Error_executing_transaction tx_type e), Sleep 1]
         | Confirmed sig \<Rightarrow>
             [Call_send_transaction tx_type tx,
              Call_confirm_transaction tx_type sig (CONFIRMATION_TIMEOUT cfg),
              Log (Transaction_successful tx_type amt sig), Sleep 1]
         | TimedOut sig \<Rightarrow>
             [Call_send_transaction tx_type tx,
              Call_confirm_transaction tx_type sig (CONFIRMATION_TIMEOUT cfg),
              Log (Transaction_timed_out tx_type), Sleep 1]))"

fun is_confirmed :: "outcome \<Rightarrow> bool" where
  "is_confirmed (Confirmed sig) = True"
| "is_confirmed out = False"

fun sent :: "event list \<Rightarrow> string list" where
  \<comment> \<open>the \<open>tx_type\<close> of every send in a trace, in order\<close>
  "sent [] = []"
| "sent (Call_send_transaction tx_type tx # es) = tx_type # sent es"
| "sent (e # es) = sent es"

fun builds :: "event list \<Rightarrow> nat" where
  \<comment> \<open>the number of transactions built: each build fetches the recent blockhash once\<close>
  "builds [] = 0"
| "builds (Call_get_recent_blockhash # es) = Suc (builds es)"
| "builds (e # es) = builds es"

section \<open>transaction_monitor.py\<close>

definition starts_with_3 :: "string option \<Rightarrow> bool" where
  \<comment> \<open>\<open>instruction.get("data", "").startswith("3")\<close>\<close>
  "starts_with_3 d = (case d of None \<Rightarrow> False | Some text \<Rightarrow> take 1 text = ''3'')"

fun scan_instructions :: "string \<Rightarrow> RawTransaction \<Rightarrow> RawInstruction list \<Rightarrow> bool" where
  \<comment> \<open>the loop \<open>for instruction in instructions\<close> of \<open>_is_nexacoin_transfer\<close>\<close>
  "scan_instructions nexacoin_mint t [] = False"
| "scan_instructions nexacoin_mint t (instruction # rest) =
     (if programId instruction = Some token_program_id \<and> starts_with_3 (ix_data instruction)
      then (if list_ex (\<lambda>balance. mint balance = Some nexacoin_mint)
                 (postTokenBalances t @ preTokenBalances t)
            then True
            else scan_instructions nexacoin_mint t rest)
      else scan_instructions nexacoin_mint t rest)"

definition is_nexacoin_transfer :: "string \<Rightarrow> RawTransaction \<Rightarrow> bool" where
  "is_nexacoin_transfer nexacoin_mint t =
     (if err t \<noteq> None then False
      else scan_instructions nexacoin_mint t (message_instructions t))"

definition balances_by_index :: "TokenBalance list \<Rightarrow> (nat \<times> TokenBalance) list" where
  \<comment> \<open>the dict \<open>{b.get("accountIndex"): b for b in balances}\<close>: keys in the order of their
      first occurrence, each with the value of its last occurrence\<close>
  "balances_by_index balances = fold (\<lambda>b d. AList.update (accountIndex b) b d) balances []"

definition balance_amount :: "TokenBalance option \<Rightarrow> int" where
  \<comment> \<open>\<open>int(b.get("uiTokenAmount", {}).get("amount", "0"))\<close>, \<open>b\<close> being \<open>{}\<close> for \<open>None\<close>\<close>
  "balance_amount b =
     (case b of None \<Rightarrow> 0 | Some balance \<Rightarrow> (case uiTokenAmount balance of None \<Rightarrow> 0 | Some n \<Rightarrow> n))"

definition first_signature :: "RawTransaction \<Rightarrow> error + string" where
  \<comment> \<open>\<open>transaction.get("transaction", {}).get("signatures", [""])[0]\<close>\<close>
  "first_signature t =
     (case signatures t of
        None \<Rightarrow> Inr ''''
      | Some [] \<Rightarrow> Inl IndexError
      | Some (sig # _) \<Rightarrow> Inr sig)"

fun extract_loop ::
  "string \<Rightarrow> string list \<Rightarrow> RawTransaction \<Rightarrow> (nat \<times> TokenBalance) list
     \<Rightarrow> (nat \<times> TokenBalance) list \<Rightarrow> error + TransferDetails option" where
  \<comment> \<open>the loop \<open>for idx, post_balance in post_balances.items()\<close>\<close>
  "extract_loop nexacoin_mint tracked t pre_balances [] = Inr None"
| "extract_loop nexacoin_mint tracked t pre_balances ((idx, post_balance) # rest) =
     (if mint post_balance \<noteq> Some nexacoin_mint
      then extract_loop nexacoin_mint tracked t pre_balances rest
      else
        (let pre_amount = balance_amount (map_of pre_balances idx);
             post_amount = balance_amount (Some post_balance)
         in if pre_amount < post_amount
            then
              (let account_index = accountIndex post_balance;
                   account_keys = accountKeys t
               in if account_index < length account_keys
                  then
                    (let transfer_to = account_keys ! account_index;
                         transfer_amount = post_amount - pre_amount
                     in if transfer_to \<in> set tracked
                        then (case first_signature t of
                                Inl e \<Rightarrow> Inl e
                              | Inr sig \<Rightarrow>
                                  Inr (Some \<lparr>transaction_id = sig,
                                             destination = transfer_to,
                                             amount = transfer_amount,
                                             timestamp = (case blockTime t of None \<Rightarrow> 0 | Some b \<Rightarrow> b)\<rparr>))
                        else extract_loop nexacoin_mint tracked t pre_balances rest)
                  else extract_loop nexacoin_mint tracked t pre_balances rest)
            else extract_loop nexacoin_mint tracked t pre_balances rest))"

definition extract_transfer_details ::
  "string \<Rightarrow> string list \<Rightarrow> RawTransaction \<Rightarrow> TransferDetails option" where
  \<comment> \<open>an exception inside is caught and logged, and \<open>None\<close> returned\<close>
  "extract_transfer_details nexacoin_mint tracked t =
     (case extract_loop nexacoin_mint tracked t
             (balances_by_index (preTokenBalances t)) (balances_by_index (postTokenBalances t)) of
        Inl e \<Rightarrow> None
      | Inr r \<Rightarrow> r)"

definition classify :: "string \<Rightarrow> string list \<Rightarrow> RawTransaction \<Rightarrow> TransferDetails option" where
  \<comment> \<open>the test of \<open>_check_account_transactions\<close> on a fetched transaction:
      \<open>_is_nexacoin_transfer\<close>, then \<open>_extract_transfer_details\<close>\<close>
  "classify nexacoin_mint tracked t =
     (if is_nexacoin_transfer nexacoin_mint t
      then extract_transfer_details nexacoin_mint tracked t
      else None)"

definition get_monitored_token_accounts ::
  "'w SolanaClient \<Rightarrow> Config \<Rightarrow> 'w state \<Rightarrow> string list \<times> 'w state" where
  "get_monitored_token_accounts c cfg s =
     (case call (Call_get_token_accounts_by_owner (MONITORED_ACCOUNT cfg) (NEXACOIN_MINT cfg))
             (get_token_accounts_by_owner c (MONITORED_ACCOUNT cfg) (NEXACOIN_MINT cfg)) s of
        (Inl e, s1) \<Rightarrow> ([], emit (Log (Error_getting_token_accounts e)) s1)
      | (Inr found, s1) \<Rightarrow> (found, s1))"

definition init_monitor :: "'w SolanaClient \<Rightarrow> Config \<Rightarrow> 'w \<Rightarrow> 'w state" where
  \<comment> \<open>\<open>TransactionMonitor.__init__\<close>: one cursor, unset, and the token accounts of the wallet\<close>
  "init_monitor c cfg w =
     (case get_monitored_token_accounts c cfg
             \<lparr>world = w, trace = [], last_signature = None, token_accounts = []\<rparr> of
        (found, s) \<Rightarrow>
          emit (Log (if found = [] then No_token_accounts_found (MONITORED_ACCOUNT cfg)
                     else Monitoring_token_accounts (length found) (MONITORED_ACCOUNT cfg)))
            (s\<lparr>token_accounts := found\<rparr>))"

fun process_signatures ::
  "'w SolanaClient \<Rightarrow> Config \<Rightarrow> string \<Rightarrow> SigInfo list \<Rightarrow> 'w state \<Rightarrow> (error + unit) \<times> 'w state" where
  \<comment> \<open>the loop \<open>for sig_info in reversed(signatures)\<close>, on the reversed list; \<open>newest\<close> is
      \<open>signatures[0]["signature"]\<close>\<close>
  "process_signatures c cfg newest [] s = (Inr (), s)"
| "process_signatures c cfg newest (sig_info # rest) s =
     (if Some (signature sig_info) = last_signature s
      then process_signatures c cfg newest rest s
      else
        (case call (Call_get_transaction (signature sig_info))
                (get_transaction c (signature sig_info)) (s\<lparr>last_signature := Some newest\<rparr>) of
           (Inl e, s1) \<Rightarrow> (Inl e, s1)
         | (Inr None, s1) \<Rightarrow> process_signatures c cfg newest rest s1
         | (Inr (Some t), s1) \<Rightarrow>
             (case classify (NEXACOIN_MINT cfg) (token_accounts s1) t of
                None \<Rightarrow> process_signatures c cfg newest rest s1
              | Some transfer_details \<Rightarrow>
                  (case process_transfer c cfg transfer_details
                          (emit (Call_process_transfer (signature sig_info) transfer_details)
                             (emit (Log (Detected_incoming_transfer (amount transfer_details)
                                (destination transfer_details))) s1)) of
                     (ok, s2) \<Rightarrow> process_signatures c cfg newest rest s2))))"

definition scan_account ::
  "'w SolanaClient \<Rightarrow> Config \<Rightarrow> string \<Rightarrow> 'w state \<Rightarrow> (error + unit) \<times> 'w state" where
  \<comment> \<open>the body of the \<open>try\<close> of \<open>_check_account_transactions\<close>\<close>
  "scan_account c cfg account s =
     (case call (Call_get_signatures_for_address account (last_signature s) 20)
             (get_signatures_for_address c account (last_signature s) 20) s of
        (Inl e, s1) \<Rightarrow> (Inl e, s1)
      | (Inr [], s1) \<Rightarrow> (Inr (), s1)
      | (Inr (first # others), s1) \<Rightarrow>
          if \<not> truthy (last_signature s1)
          then (Inr (), emit (Log (Initial_signature_set (signature first)))
                          (s1\<lparr>last_signature := Some (signature first)\<rparr>))
          else process_signatures c cfg (signature first) (rev (first # others)) s1)"

definition check_account_transactions ::
  "'w SolanaClient \<Rightarrow> Config \<Rightarrow> string \<Rightarrow> 'w state \<Rightarrow> 'w state" where
  \<comment> \<open>\<open>_check_account_transactions\<close>: whatever the body raises is caught and logged here\<close>
  "check_account_transactions c cfg account s =
     (case scan_account c cfg account s of
        (Inl e, s1) \<Rightarrow> emit (Log (Error_checking_transactions account e)) s1
      | (Inr u, s1) \<Rightarrow> s1)"

definition check_for_new_transactions :: "'w SolanaClient \<Rightarrow> Config \<Rightarrow> 'w state \<Rightarrow> 'w state" where
  \<comment> \<open>first the wallet, then each token account; about once an hour the token accounts are
      read again. Nothing called here raises, so the handler of the \<open>try\<close> is never entered.\<close>
  "check_for_new_transactions c cfg s =
     (let s1 = check_account_transactions c cfg (MONITORED_ACCOUNT cfg) s;
          s2 = fold (check_account_transactions c cfg) (token_accounts s1) s1;
          now = time_time c (world s2)
      in if now - 3600 * of_int \<lfloor>now / 3600\<rfloor> < POLLING_INTERVAL cfg
         then (case get_monitored_token_accounts c cfg s2 of
                 (new_accounts, s3) \<Rightarrow>
                   if set new_accounts \<noteq> set (token_accounts s3)
                   then (emit (Log (Token_accounts_updated (length new_accounts))) s3)
                          \<lparr>token_accounts := new_accounts\<rparr>
                   else s3)
         else s2)"

fun fetched :: "event list \<Rightarrow> string list" where
  \<comment> \<open>the transaction ids fetched with \<open>get_transaction\<close>, in order\<close>
  "fetched [] = []"
| "fetched (Call_get_transaction sig # es) = sig # fetched es"
| "fetched (e # es) = fetched es"

fun processed :: "event list \<Rightarrow> string list" where
  \<comment> \<open>the ids of the listed records passed on to \<open>process_transfer\<close>, in order\<close>
  "processed [] = []"
| "processed (Call_process_transfer sig d # es) = sig # processed es"
| "processed (e # es) = processed es"

text \<open>
  An entry of the post-balance dict is a credit when it is of the tracked mint, its
  amount exceeds the pre-balance at its position, and its position is that of a tracked
  account in the account-key list.
\<close>

definition credited :: "string \<Rightarrow> string list \<Rightarrow> RawTransaction \<Rightarrow> nat \<times> TokenBalance \<Rightarrow> bool" where
  "credited nexacoin_mint tracked t entry =
     (case entry of (idx, post_balance) \<Rightarrow>
        mint post_balance = Some nexacoin_mint
      \<and> balance_amount (map_of (balances_by_index (preTokenBalances t)) idx)
            < balance_amount (Some post_balance)
      \<and> accountIndex post_balance < length (accountKeys t)
      \<and> accountKeys t ! accountIndex post_balance \<in> set tracked)"

definition silent :: "event \<Rightarrow> bool" where
  \<comment> \<open>an event that is neither a send, nor a fetch of a transaction, nor a call of
      \<open>process_transfer\<close>\<close>
  "silent e =
     (case e of
        Call_send_transaction tx_type tx \<Rightarrow> False
      | Call_get_transaction sig \<Rightarrow> False
      | Call_process_transfer sig d \<Rightarrow> False
      | _ \<Rightarrow> True)"

section \<open>A configuration and a ledger to run the program on\<close>

text \<open>
  The configuration has the defaults of config.py (5, 70 and 25 percent, a minimum of
  1000, a confirmation timeout of 60 seconds, intervals of 10 and 30 seconds). On the
  ledger \<open>example_client\<close> every owner has one token account, every send is accepted,
  and every transaction is confirmed but the one sent to the treasury's token account,
  whose confirmation times out.
\<close>

definition example_config :: Config where
  "example_config =
     \<lparr>MONITORED_ACCOUNT = ''wallet'', NEXACOIN_MINT = ''nexa'',
      BURN_PERCENTAGE = 5, TREASURY_PERCENTAGE = 70, FEE_PERCENTAGE = 25,
      BURN_ADDRESS = ''burn'', TREASURY_ADDRESS = ''treasury'', FEE_ADDRESS = ''fee'',
      MIN_TRANSFER_AMOUNT = 1000, CONFIRMATION_TIMEOUT = 60,
      POLLING_INTERVAL = 10, ERROR_RETRY_INTERVAL = 30\<rparr>"

definition transfer_destination :: "Transaction \<Rightarrow> string" where
  \<comment> \<open>the second account of the first instruction\<close>
  "transfer_destination tx =
     (case instructions tx of
        [] \<Rightarrow> ''''
      | i # _ \<Rightarrow> (case accounts i of [a, b, c] \<Rightarrow> key_text (pubkey b) | _ \<Rightarrow> ''''))"

definition example_client :: "unit SolanaClient" where
  "example_client =
     \<lparr>get_token_accounts_by_owner = (\<lambda>owner token_mint w. (Inr [owner @ ''_token''], w)),
      get_signatures_for_address = (\<lambda>account before limit w. (Inr [], w)),
      get_transaction = (\<lambda>sig w. (Inr None, w)),
      send_transaction = (\<lambda>tx w. (Inr (''sig_'' @ transfer_destination tx), w)),
      confirm_transaction = (\<lambda>sig timeout w. (sig \<noteq> ''sig_treasury_token'', w)),
      get_recent_blockhash = (\<lambda>w. (Inr ''blockhash'', w)),
      keypair_public_key = ''authority'',
      PublicKey = (\<lambda>text. Inr text),
      time_time = (\<lambda>w. 1800)\<rparr>"

definition example_state :: "unit state" where
  "example_state = \<lparr>world = (), trace = [], last_signature = None, token_accounts = [''wallet_token'']\<rparr>"

text \<open>
  A transfer of 2000 units of the tracked mint to the wallet's token account: a
  successful transaction with one transfer instruction of the token program, whose
  balance at position 1 goes from 500 to 2500.
\<close>

definition example_transfer :: "string \<Rightarrow> RawTransaction" where
  "example_transfer sig =
     \<lparr>err = None,
      preTokenBalances =
        [\<lparr>accountIndex = 0, mint = Some ''nexa'', uiTokenAmount = Some 9000\<rparr>,
         \<lparr>accountIndex = 1, mint = Some ''nexa'', uiTokenAmount = Some 500\<rparr>],
      postTokenBalances =
        [\<lparr>accountIndex = 0, mint = Some ''nexa'', uiTokenAmount = Some 7000\<rparr>,
         \<lparr>accountIndex = 1, mint = Some ''nexa'', uiTokenAmount = Some 2500\<rparr>],
      message_instructions = [\<lparr>programId = Some token_program_id, ix_data = Some ''3pFgtwwZBtC7''\<rparr>],
      accountKeys = [''sender_token'', ''wallet_token'', ''sender''],
      signatures = Some [sig],
      blockTime = Some 1700000000\<rparr>"

text \<open>
  On the ledger \<open>history_client page\<close> every account's signature listing is the given
  page and every listed transaction is the transfer above.
\<close>

definition history_client :: "SigInfo list \<Rightarrow> unit SolanaClient" where
  "history_client page =
     example_client
       \<lparr>get_signatures_for_address := (\<lambda>account before limit w. (Inr page, w)),
        get_transaction := (\<lambda>sig w. (Inr (Some (example_transfer sig)), w))\<rparr>"

text \<open>
  A ledger with a history for each account, newest first, that honours \<open>before\<close> and
  \<open>limit\<close>: a listing holds the records of the account in slots below the slot of the
  \<open>before\<close> signature, at most \<open>limit\<close> of them. The wallet's history is A (slot 9)
  and B (slot 5); that of its token account is C (slot 8) and D (slot 4).
\<close>

definition example_histories :: "(string \<times> SigInfo list) list" where
  "example_histories =
     [(''wallet'', [\<lparr>signature = ''A'', slot = 9\<rparr>, \<lparr>signature = ''B'', slot = 5\<rparr>]),
      (''wallet_token'', [\<lparr>signature = ''C'', slot = 8\<rparr>, \<lparr>signature = ''D'', slot = 4\<rparr>])]"

definition history_of :: "(string \<times> SigInfo list) list \<Rightarrow> string \<Rightarrow> SigInfo list" where
  "history_of histories account = (case map_of histories account of None \<Rightarrow> [] | Some h \<Rightarrow> h)"

definition slot_of :: "(string \<times> SigInfo list) list \<Rightarrow> string \<Rightarrow> nat option" where
  "slot_of histories sig =
     map_option slot (find (\<lambda>i. signature i = sig) (concat (map snd histories)))"

definition listing :: "(string \<times> SigInfo list) list \<Rightarrow> string \<Rightarrow> string option \<Rightarrow> nat \<Rightarrow> SigInfo list" where
  "listing histories account before limit =
     take limit
       (case before of
          None \<Rightarrow> history_of histories account
        | Some sig \<Rightarrow>
            (case slot_of histories sig of
               None \<Rightarrow> []
             | Some k \<Rightarrow> filter (\<lambda>i. slot i < k) (history_of histories account)))"

definition ledger_client :: "unit SolanaClient" where
  "ledger_client =
     example_client
       \<lparr>get_signatures_for_address :=
          (\<lambda>account before limit w. (Inr (listing example_histories account before limit), w)),
        get_transaction := (\<lambda>sig w. (Inr (Some (example_transfer sig)), w))\<rparr>"

section \<open>Running the model on concrete inputs\<close>

lemmas run_defs =
  execute_redistribution_def build_transactions_def build_leg_def
  find_token_account_for_owner_def build_token_transfer_transaction_def
  process_transfer_def call_def emit_def truthy_def to_bytes_def Let_def
  example_client_def example_config_def example_state_def
  transfer_destination_def token_program_id_def solders_Instruction_def solana_py_key_def

section \<open>Properties of the float model\<close>

lemma round_half_even_le: "q \<le> of_int N \<Longrightarrow> round_half_even q \<le> N"
proof -
  assume h: "q \<le> of_int N"
  then have f: "\<lfloor>q\<rfloor> \<le> N" using floor_mono [of q "of_int N"] by simp
  show ?thesis
  proof (cases "\<lfloor>q\<rfloor> = N")
    case True
    then have "q = of_int N" using h by (metis floor_le_iff le_floor_iff of_int_floor_le order_antisym)
    then show ?thesis by (simp add: round_half_even_def)
  next
    case False
    then have "\<lfloor>q\<rfloor> + 1 \<le> N" using f by simp
    then show ?thesis by (simp add: round_half_even_def Let_def)
  qed
qed

lemma round_half_even_nonneg: "0 \<le> q \<Longrightarrow> 0 \<le> round_half_even q"
  by (simp add: round_half_even_def Let_def)

lemma floor_log2_lower: "0 < x \<Longrightarrow> 2 powi floor_log2 x \<le> x"
proof (cases "1 \<le> x")
  case True
  let ?n = "\<lfloor>x\<rfloor>"
  from True have n: "0 < ?n" by simp
  from bitlen_bounds [OF n] have "2 ^ nat (bitlen ?n - 1) \<le> ?n" by simp
  then have "(of_int (2 ^ nat (bitlen ?n - 1)) :: rat) \<le> of_int ?n" by (simp only: of_int_le_iff)
  then have "(2 :: rat) ^ nat (bitlen ?n - 1) \<le> of_int ?n" by simp
  then have a: "(2 :: rat) ^ nat (bitlen ?n - 1) \<le> x" using of_int_floor_le [of x] by linarith
  have "1 \<le> bitlen ?n" using n by (simp add: bitlen_alt_def)
  then have "(2 :: rat) powi (bitlen ?n - 1) = 2 ^ nat (bitlen ?n - 1)"
    by (simp add: power_int_nonneg_exp)
  with a True show ?thesis by (simp add: floor_log2_def)
next
  case False
  assume pos: "0 < x"
  let ?y = "1 / x"
  let ?n = "\<lceil>?y\<rceil>"
  let ?c = "bitlen (?n - 1)"
  from False pos have y: "1 < ?y" by simp
  then have n: "0 < ?n - 1" by (simp add: less_ceiling_iff)
  from bitlen_bounds [OF n] have "?n - 1 < 2 ^ nat ?c" by simp
  then have "?n \<le> 2 ^ nat ?c" by simp
  then have "(of_int ?n :: rat) \<le> of_int (2 ^ nat ?c)" by (simp only: of_int_le_iff)
  then have "(of_int ?n :: rat) \<le> 2 ^ nat ?c" by simp
  then have "?y \<le> 2 ^ nat ?c" by (rule order_trans [OF le_of_int_ceiling])
  then have "1 \<le> 2 ^ nat ?c * x" using pos by (simp add: field_simps)
  then have "1 / 2 ^ nat ?c \<le> x" by (simp add: field_simps)
  moreover have "(2 :: rat) powi (- ?c) = 1 / 2 ^ nat ?c"
    by (simp add: power_int_minus_divide power_int_nonneg_exp bitlen_nonneg)
  ultimately show ?thesis using False by (simp add: floor_log2_def)
qed

lemma floor_log2_upper: "0 < x \<Longrightarrow> x < 2 powi (floor_log2 x + 1)"
proof (cases "1 \<le> x")
  case True
  let ?n = "\<lfloor>x\<rfloor>"
  from True have n: "0 < ?n" by simp
  from bitlen_bounds [OF n] have "?n + 1 \<le> 2 ^ nat (bitlen ?n)" by simp
  then have "(of_int (?n + 1) :: rat) \<le> of_int (2 ^ nat (bitlen ?n))" by (simp only: of_int_le_iff)
  then have "of_int ?n + 1 \<le> (2 :: rat) ^ nat (bitlen ?n)" by simp
  then have a: "x < (2 :: rat) ^ nat (bitlen ?n)" using floor_correct [of x] by linarith
  have "(2 :: rat) powi (bitlen ?n) = 2 ^ nat (bitlen ?n)"
    by (simp add: power_int_nonneg_exp bitlen_nonneg)
  with a True show ?thesis by (simp add: floor_log2_def)
next
  case False
  assume pos: "0 < x"
  let ?y = "1 / x"
  let ?n = "\<lceil>?y\<rceil>"
  let ?c = "bitlen (?n - 1)"
  from False pos have y: "1 < ?y" by simp
  then have n: "0 < ?n - 1" by (simp add: less_ceiling_iff)
  have c: "1 \<le> ?c" using n by (simp add: bitlen_alt_def)
  from bitlen_bounds [OF n] have "2 ^ nat (?c - 1) \<le> ?n - 1" by simp
  then have "(of_int (2 ^ nat (?c - 1)) :: rat) \<le> of_int (?n - 1)" by (simp only: of_int_le_iff)
  then have "(2 :: rat) ^ nat (?c - 1) \<le> of_int ?n - 1" by simp
  moreover have "of_int ?n - 1 < ?y" using ceiling_correct [of ?y] by simp
  ultimately have "2 ^ nat (?c - 1) < ?y" by (rule order_le_less_trans)
  then have "2 ^ nat (?c - 1) * x < 1" using pos by (simp add: field_simps)
  then have "x < 1 / 2 ^ nat (?c - 1)" by (simp add: field_simps)
  moreover have "(2 :: rat) powi (- ?c + 1) = 1 / 2 ^ nat (?c - 1)"
  proof -
    have "(2 :: rat) powi (- ?c + 1) = 2 powi (- (?c - 1))" by simp
    also have "\<dots> = 1 / 2 powi (?c - 1)" by (rule power_int_minus_divide)
    also have "\<dots> = 1 / 2 ^ nat (?c - 1)" using c by (simp add: power_int_nonneg_exp)
    finally show ?thesis .
  qed
  ultimately show ?thesis using False by (simp add: floor_log2_def)
qed

lemma floor_log2_eq:
  assumes "2 powi k \<le> x" and "x < 2 powi (k + 1)"
  shows "floor_log2 x = k"
proof -
  have pos: "0 < x" using assms(1) by (rule less_le_trans [rotated]) simp
  have "\<not> k + 1 \<le> floor_log2 x"
  proof
    assume "k + 1 \<le> floor_log2 x"
    then have "(2 :: rat) powi (k + 1) \<le> 2 powi floor_log2 x" by (intro power_int_increasing) auto
    also have "\<dots> \<le> x" by (rule floor_log2_lower [OF pos])
    finally show False using assms(2) by simp
  qed
  moreover have "\<not> floor_log2 x + 1 \<le> k"
  proof
    assume "floor_log2 x + 1 \<le> k"
    then have "(2 :: rat) powi (floor_log2 x + 1) \<le> 2 powi k" by (intro power_int_increasing) auto
    also note assms(1)
    finally show False using floor_log2_upper [OF pos] by simp
  qed
  ultimately show ?thesis by simp
qed

lemma overflows_iff: "overflows r \<longleftrightarrow> 2 ^ 1024 \<le> \<bar>r\<bar>"
proof (cases "r = 0")
  case True
  then show ?thesis by (simp add: overflows_def)
next
  case False
  then have pos: "0 < \<bar>r\<bar>" by simp
  show ?thesis
  proof
    assume "overflows r"
    then have "(2 :: rat) powi 1024 \<le> 2 powi floor_log2 \<bar>r\<bar>"
      by (intro power_int_increasing) (auto simp: overflows_def)
    also have "\<dots> \<le> \<bar>r\<bar>" by (rule floor_log2_lower [OF pos])
    finally show "2 ^ 1024 \<le> \<bar>r\<bar>" by simp
  next
    assume "2 ^ 1024 \<le> \<bar>r\<bar>"
    then have "(2 :: rat) powi 1024 \<le> \<bar>r\<bar>" by simp
    also have "\<dots> < 2 powi (floor_log2 \<bar>r\<bar> + 1)" by (rule floor_log2_upper [OF pos])
    finally have "\<not> floor_log2 \<bar>r\<bar> + 1 \<le> 1024"
      using power_int_increasing [of "floor_log2 \<bar>r\<bar> + 1" 1024 "2 :: rat"] by auto
    then show "overflows r" using False by (simp add: overflows_def)
  qed
qed

lemma round_double_nonneg: "0 \<le> x \<Longrightarrow> 0 \<le> round_double x"
  by (auto simp: round_double_def Let_def round_half_even_nonneg intro!: mult_nonneg_nonneg)

lemma round_double_le_pow2:
  assumes "0 \<le> x" and "x \<le> 2 powi n" and "- 1074 \<le> n"
  shows "round_double x \<le> 2 powi n"
proof (cases "x = 0")
  case True
  then show ?thesis by (simp add: round_double_def)
next
  case False
  with assms have pos: "0 < x" by simp
  define k where "k = floor_log2 x"
  define e where "e = max (k - 52) (- 1074)"
  define m where "m = round_half_even (x / 2 powi e)"
  have "k \<le> n"
  proof (rule ccontr)
    assume "\<not> k \<le> n"
    then have "(2 :: rat) powi n < 2 powi k" by (intro power_int_strict_increasing) auto
    also have "\<dots> \<le> x" unfolding k_def by (rule floor_log2_lower [OF pos])
    finally show False using assms(2) by simp
  qed
  then have en: "e \<le> n" using assms(3) by (simp add: e_def)
  have p2: "(0 :: rat) < 2 powi e" by simp
  have "x / 2 powi e \<le> 2 powi n / 2 powi e"
    using assms(2) p2 by (simp add: divide_right_mono)
  also have "\<dots> = 2 powi (n - e)" by (simp add: power_int_diff)
  also have "\<dots> = of_int (2 ^ nat (n - e))" using en by (simp add: power_int_nonneg_exp)
  finally have "m \<le> 2 ^ nat (n - e)" unfolding m_def by (rule round_half_even_le)
  then have "(of_int m :: rat) \<le> of_int (2 ^ nat (n - e))" by (simp only: of_int_le_iff)
  then have "(of_int m :: rat) \<le> 2 powi (n - e)" using en by (simp add: power_int_nonneg_exp)
  then have "of_int m * 2 powi e \<le> 2 powi (n - e) * (2 :: rat) powi e"
    using p2 by (simp add: mult_right_mono)
  also have "\<dots> = 2 powi n" by (simp flip: power_int_add)
  finally have "of_int m * 2 powi e \<le> (2 :: rat) powi n" .
  moreover have "round_double x = of_int m * 2 powi e"
    using pos by (simp add: round_double_def Let_def m_def e_def k_def)
  ultimately show ?thesis by simp
qed

lemma percentage_of_total:
  assumes "0 < amt" and "amt \<le> 2 ^ 1022" and "0 \<le> p" and "p \<le> 200"
  shows "\<exists>a. percentage_of amt p = Inr a \<and> 0 \<le> a"
proof -
  define r where "r = round_double (of_int amt)"
  define d where "d = round_double (p / 100)"
  define z where "z = round_double (r * d)"
  have "(of_int amt :: rat) \<le> of_int (2 ^ 1022)" using assms(2) by (simp only: of_int_le_iff)
  then have "(of_int amt :: rat) \<le> 2 powi 1022" by simp
  then have r1: "r \<le> 2 powi 1022" unfolding r_def
    using assms(1) by (intro round_double_le_pow2) auto
  have r0: "0 \<le> r" unfolding r_def using assms(1) by (intro round_double_nonneg) auto
  have "p / 100 \<le> 2 powi 1" using assms(4) by simp
  then have d1: "d \<le> 2 powi 1" unfolding d_def
    using assms(3) by (intro round_double_le_pow2) auto
  have d0: "0 \<le> d" unfolding d_def using assms(3) by (intro round_double_nonneg) auto
  have "r * d \<le> 2 powi 1022 * 2 powi 1" using r0 r1 d0 d1 by (intro mult_mono) auto
  also have "\<dots> = (2 :: rat) powi (1022 + 1)" by (subst power_int_add) simp_all
  also have "\<dots> = (2 :: rat) powi 1023" by simp
  finally have z1: "z \<le> 2 powi 1023" unfolding z_def
    using r0 d0 by (intro round_double_le_pow2) auto
  have z0: "0 \<le> z" unfolding z_def using r0 d0 by (intro round_double_nonneg) auto
  have lt: "(2 :: rat) powi 1022 < 2 ^ 1024" "(2 :: rat) powi 1023 < 2 ^ 1024" by simp_all
  have "\<bar>r\<bar> < 2 ^ 1024" using r0 r1 lt by simp
  then have "float_of_int amt = Inr r"
    by (simp add: float_of_int_def r_def Let_def overflows_iff)
  moreover have "\<bar>z\<bar> < 2 ^ 1024" using z0 z1 lt by simp
  then have "float_mul r (float_div p 100) = Finite z"
    by (simp add: float_mul_def float_div_def z_def d_def Let_def overflows_iff)
  ultimately have "percentage_of amt p = Inr (trunc z)"
    by (simp add: percentage_of_def int_of_float_def)
  moreover have "0 \<le> trunc z" using z0 by (simp add: trunc_def)
  ultimately show ?thesis by blast
qed

lemma round_half_even_ge: "of_int N \<le> q \<Longrightarrow> N \<le> round_half_even q"
proof -
  assume "of_int N \<le> q"
  then have "N \<le> \<lfloor>q\<rfloor>" by (simp add: le_floor_iff)
  then show ?thesis by (simp add: round_half_even_def Let_def)
qed

lemma round_double_ge_pow2:
  assumes "2 powi n \<le> x" and "- 1074 \<le> n"
  shows "2 powi n \<le> round_double x"
proof -
  have pos: "0 < x" using assms(1) by (rule less_le_trans [rotated]) simp
  define k where "k = floor_log2 x"
  define e where "e = max (k - 52) (- 1074)"
  define m where "m = round_half_even (x / 2 powi e)"
  have "\<not> k + 1 \<le> n"
  proof
    assume "k + 1 \<le> n"
    then have "(2 :: rat) powi (k + 1) \<le> 2 powi n" by (intro power_int_increasing) auto
    also note assms(1)
    finally show False using floor_log2_upper [OF pos] by (simp add: k_def)
  qed
  then have nk: "n \<le> k" by simp
  then have ek: "e \<le> k" using assms(2) by (simp add: e_def)
  have p2: "(0 :: rat) < 2 powi e" by simp
  have "(of_int (2 ^ nat (k - e)) :: rat) = 2 powi (k - e)"
    using ek by (simp add: power_int_nonneg_exp)
  also have "\<dots> = 2 powi k / 2 powi e" by (simp add: power_int_diff)
  also have "\<dots> \<le> x / 2 powi e"
    using floor_log2_lower [OF pos] p2 by (simp add: divide_right_mono k_def)
  finally have "2 ^ nat (k - e) \<le> m" unfolding m_def by (rule round_half_even_ge)
  then have "(of_int (2 ^ nat (k - e)) :: rat) \<le> of_int m" by (simp only: of_int_le_iff)
  then have "(2 :: rat) powi (k - e) \<le> of_int m" using ek by (simp add: power_int_nonneg_exp)
  then have "(2 :: rat) powi (k - e) * 2 powi e \<le> of_int m * 2 powi e"
    using p2 by (simp add: mult_right_mono)
  moreover have "(2 :: rat) powi (k - e) * 2 powi e = 2 powi k" by (simp flip: power_int_add)
  moreover have "(2 :: rat) powi n \<le> 2 powi k" using nk by (intro power_int_increasing) auto
  moreover have "round_double x = of_int m * 2 powi e"
    using pos by (simp add: round_double_def Let_def m_def e_def k_def)
  ultimately show ?thesis by simp
qed

lemma float_of_int_overflow: "2 ^ 1024 \<le> n \<Longrightarrow> float_of_int n = Inl OverflowError"
proof -
  assume "2 ^ 1024 \<le> n"
  then have "(of_int (2 ^ 1024) :: rat) \<le> of_int n" by (simp only: of_int_le_iff)
  then have "(2 :: rat) powi 1024 \<le> of_int n" by simp
  then have "(2 :: rat) powi 1024 \<le> round_double (of_int n)"
    by (rule round_double_ge_pow2) simp
  then have "2 ^ 1024 \<le> \<bar>round_double (of_int n)\<bar>" by simp
  then show ?thesis by (simp add: float_of_int_def Let_def overflows_iff)
qed

section \<open>The split of an amount (utils.py)\<close>

text \<open>
  C1, as amended. For every amount from 1 to \<open>2 ^ 1022\<close> and every three non-negative
  percentages whose sum is within 0.01 of 100, \<open>split_amount_by_percentage\<close> returns three
  integers whose sum is the amount exactly. The first two are the truncated shares and
  are non-negative; the third is the truncated share plus the remainder, whatever its sign.
\<close>

theorem split_amount_by_percentage_exact_sum:
  assumes "0 < amt" and "amt \<le> 2 ^ 1022"
    and "0 \<le> p1" and "0 \<le> p2" and "0 \<le> p3"
    and "\<bar>p1 + p2 + p3 - 100\<bar> \<le> 1 / 100"
  shows "\<exists>a b c. split_amount_by_percentage amt [p1, p2, p3] = Inr [a, b, c]
           \<and> a + b + c = amt
           \<and> percentage_of amt p1 = Inr a \<and> 0 \<le> a
           \<and> percentage_of amt p2 = Inr b \<and> 0 \<le> b"
proof -
  from assms(3-6) have "p1 \<le> 200" and "p2 \<le> 200" and "p3 \<le> 200" by linarith+
  with assms obtain a b c where
    a: "percentage_of amt p1 = Inr a" "0 \<le> a" and
    b: "percentage_of amt p2 = Inr b" "0 \<le> b" and
    c: "percentage_of amt p3 = Inr c"
    using percentage_of_total [of amt p1] percentage_of_total [of amt p2]
      percentage_of_total [of amt p3] by blast
  have "split_amount_by_percentage amt [p1, p2, p3] =
      Inr [a, b, c + (amt - (a + b + c))]"
    using a b c by (simp add: split_amount_by_percentage_def Let_def)
  with a b show ?thesis by simp
qed

theorem split_amount_by_percentage_exact_sum_witness:
  "(0 :: int) < 1007 \<and> (1007 :: int) \<le> 2 ^ 1022 \<and> (0 :: rat) \<le> 5 \<and> (0 :: rat) \<le> 70 \<and> (0 :: rat) \<le> 25
   \<and> \<bar>(5 :: rat) + 70 + 25 - 100\<bar> \<le> 1 / 100
   \<and> (\<exists>a b c. split_amount_by_percentage 1007 [5, 70, 25] = Inr [a, b, c]
           \<and> a + b + c = 1007
           \<and> percentage_of 1007 5 = Inr a \<and> 0 \<le> a
           \<and> percentage_of 1007 70 = Inr b \<and> 0 \<le> b)"
  using split_amount_by_percentage_exact_sum [of 1007 5 70 25] by simp

text \<open>
  C1 as stated fails. The last element takes the whole remainder, and the remainder is
  negative when the first shares alone exceed the amount: the percentages 50.0078125, 50
  and 0 sum to 100.0078125, and of 1000000 they give 500078, 500000 and - 78. And an amount
  of \<open>2 ^ 1024\<close> is too large for the conversion to float, which raises.
\<close>

theorem split_amount_by_percentage_negative_share:
  "(0 :: int) < 1000000 \<and> (0 :: rat) \<le> 6401 / 128 \<and> (0 :: rat) \<le> 50 \<and> (0 :: rat) \<le> 0
   \<and> \<bar>(6401 / 128 :: rat) + 50 + 0 - 100\<bar> \<le> 1 / 100
   \<and> split_amount_by_percentage 1000000 [6401 / 128, 50, 0] = Inr [500078, 500000, - 78]
   \<and> (- 78 :: int) < 0
   \<and> split_amount_by_percentage (2 ^ 1024) [5, 70, 25] = Inl OverflowError"
proof -
  have "split_amount_by_percentage 1000000 [6401 / 128, 50, 0] = Inr [500078, 500000, - 78]"
    by code_simp
  moreover have "split_amount_by_percentage (2 ^ 1024) [5, 70, 25] = Inl OverflowError"
    using float_of_int_overflow [of "2 ^ 1024"]
    by (simp add: split_amount_by_percentage_def percentage_of_def)
  ultimately show ?thesis by simp
qed

section \<open>The redistribution plan (transfer_processor.py)\<close>

lemma example_plan_1007: "redistribution_amounts example_config 1007 = Inr (50, 704, 251)"
  by code_simp

text \<open>
  C2, as amended. For every transfer whose amount is at least \<open>MIN_TRANSFER_AMOUNT\<close>
  (and from 1 to \<open>2 ^ 1022\<close>, the percentages non-negative and summing to 100 within 0.01),
  \<open>process_transfer\<close> computes a plan and hands it to \<open>execute_redistribution\<close>; burn and
  treasury are the truncated shares, and burn + treasury + fee is the smaller of the
  amount and the sum of the three truncated shares: it never exceeds the amount, and it
  equals the amount only when the truncated shares reach it.
\<close>

theorem process_transfer_plan_sum:
  assumes "MIN_TRANSFER_AMOUNT cfg \<le> amount d" and "0 < amount d" and "amount d \<le> 2 ^ 1022"
    and "0 \<le> BURN_PERCENTAGE cfg" and "0 \<le> TREASURY_PERCENTAGE cfg" and "0 \<le> FEE_PERCENTAGE cfg"
    and "\<bar>BURN_PERCENTAGE cfg + TREASURY_PERCENTAGE cfg + FEE_PERCENTAGE cfg - 100\<bar> \<le> 1 / 100"
  shows "\<exists>b t f f0.
           percentage_of (amount d) (BURN_PERCENTAGE cfg) = Inr b
         \<and> percentage_of (amount d) (TREASURY_PERCENTAGE cfg) = Inr t
         \<and> percentage_of (amount d) (FEE_PERCENTAGE cfg) = Inr f0
         \<and> redistribution_amounts cfg (amount d) = Inr (b, t, f)
         \<and> process_transfer c cfg d s =
             execute_redistribution c cfg (destination d) b t f
               (emit (Log (Redistribution_plan b t f))
                  (emit (Log (Processing_transfer (amount d) (destination d) (transaction_id d))) s))
         \<and> b + t + f = min (amount d) (b + t + f0)
         \<and> b + t + f \<le> amount d"
proof -
  from assms(4-7) have "BURN_PERCENTAGE cfg \<le> 200" and "TREASURY_PERCENTAGE cfg \<le> 200"
    and "FEE_PERCENTAGE cfg \<le> 200" by linarith+
  with assms obtain b t f0 where
    b: "percentage_of (amount d) (BURN_PERCENTAGE cfg) = Inr b" and
    t: "percentage_of (amount d) (TREASURY_PERCENTAGE cfg) = Inr t" and
    f0: "percentage_of (amount d) (FEE_PERCENTAGE cfg) = Inr f0"
    using percentage_of_total [of "amount d" "BURN_PERCENTAGE cfg"]
      percentage_of_total [of "amount d" "TREASURY_PERCENTAGE cfg"]
      percentage_of_total [of "amount d" "FEE_PERCENTAGE cfg"] by blast
  define f where "f = (if amount d < b + t + f0 then f0 - (b + t + f0 - amount d) else f0)"
  have plan: "redistribution_amounts cfg (amount d) = Inr (b, t, f)"
    using b t f0 by (simp add: redistribution_amounts_def Let_def f_def)
  have "process_transfer c cfg d s =
      execute_redistribution c cfg (destination d) b t f
        (emit (Log (Redistribution_plan b t f))
           (emit (Log (Processing_transfer (amount d) (destination d) (transaction_id d))) s))"
    using assms(1) plan by (simp add: process_transfer_def Let_def)
  moreover have "b + t + f = min (amount d) (b + t + f0)" by (simp add: f_def min_def)
  ultimately show ?thesis using b t f0 plan by force
qed

theorem process_transfer_plan_sum_witness:
  "MIN_TRANSFER_AMOUNT example_config \<le> 1007 \<and> (0 :: int) < 1007 \<and> (1007 :: int) \<le> 2 ^ 1022
   \<and> 0 \<le> BURN_PERCENTAGE example_config \<and> 0 \<le> TREASURY_PERCENTAGE example_config
   \<and> 0 \<le> FEE_PERCENTAGE example_config
   \<and> \<bar>BURN_PERCENTAGE example_config + TREASURY_PERCENTAGE example_config
        + FEE_PERCENTAGE example_config - 100\<bar> \<le> 1 / 100
   \<and> (\<exists>b t f f0.
           percentage_of 1007 5 = Inr b
         \<and> percentage_of 1007 70 = Inr t
         \<and> percentage_of 1007 25 = Inr f0
         \<and> redistribution_amounts example_config 1007 = Inr (b, t, f)
         \<and> process_transfer example_client example_config
               \<lparr>transaction_id = ''tx1'', destination = ''wallet_token'', amount = 1007, timestamp = 0\<rparr>
               example_state =
             execute_redistribution example_client example_config ''wallet_token'' b t f
               (emit (Log (Redistribution_plan b t f))
                  (emit (Log (Processing_transfer 1007 ''wallet_token'' ''tx1'')) example_state))
         \<and> b + t + f = min 1007 (b + t + f0)
         \<and> b + t + f \<le> 1007)"
  using process_transfer_plan_sum [of example_config
      "\<lparr>transaction_id = ''tx1'', destination = ''wallet_token'', amount = 1007, timestamp = 0\<rparr>"
      example_client example_state]
  by (simp add: example_config_def)

text \<open>
  C2 as stated fails. The fee is adjusted only when the truncated shares exceed the
  amount; a shortfall stays. With 5, 70 and 25 percent, a transfer of 1007 is planned as
  50, 704 and 251, which is 1005.
\<close>

theorem process_transfer_plan_shortfall:
  "MIN_TRANSFER_AMOUNT example_config \<le> 1007
   \<and> redistribution_amounts example_config 1007 = Inr (50, 704, 251)
   \<and> (50 :: int) + 704 + 251 \<noteq> 1007
   \<and> Log (Redistribution_plan 50 704 251) \<in> set (trace (snd (process_transfer example_client example_config
         \<lparr>transaction_id = ''tx1'', destination = ''wallet_token'', amount = 1007, timestamp = 0\<rparr>
         example_state)))"
proof -
  have "MIN_TRANSFER_AMOUNT example_config \<le> 1007" by (simp add: example_config_def)
  moreover have "Log (Redistribution_plan 50 704 251) \<in> set (trace (snd (process_transfer example_client example_config
         \<lparr>transaction_id = ''tx1'', destination = ''wallet_token'', amount = 1007, timestamp = 0\<rparr>
         example_state)))"
    using example_plan_1007 by (simp add: run_defs)
  ultimately show ?thesis using example_plan_1007 by simp
qed

section \<open>The transfer transaction (transfer_processor.py)\<close>

text \<open>
  The instruction constructor is the one of solders, and the keys and account metas it
  is given are of solana-py's classes, so it raises \<open>TypeError\<close> whatever the addresses
  and the amount are; the handler logs the error and raises it again. Building a
  transaction therefore never returns one. When the blockhash is fetched, the three
  addresses are keys and the amount is from 0 below \<open>2 ^ 64\<close>, the constructor is
  reached, and the arguments it is called with are the byte 3 followed by the eight
  little-endian bytes of the amount, and the accounts source (writable), destination
  (writable) and authority (signer), in that order.
\<close>

lemma length_le_bytes: "length (le_bytes k n) = k"
  by (induction k arbitrary: n) simp_all

lemma from_bytes_le_bytes: "from_bytes (le_bytes k n) = n mod 256 ^ k"
proof (induction k arbitrary: n)
  case 0
  show ?case by simp
next
  case (Suc k)
  have "uint (word_of_int n :: 8 word) = n mod 256" by (simp add: uint_word_of_int)
  then have "from_bytes (le_bytes (Suc k) n) = n mod 256 + 256 * (n div 256 mod 256 ^ k)"
    by (simp add: Suc.IH)
  also have "\<dots> = n mod 256 ^ Suc k" using zmod_zmult2_eq [of "256 ^ k" n 256] by simp
  finally show ?case .
qed

lemma to_bytes_8:
  assumes "0 \<le> n" and "n < 2 ^ 64"
  shows "\<exists>bs. to_bytes n 8 = Inr bs \<and> length bs = 8 \<and> from_bytes bs = n"
proof -
  have "(256 :: int) ^ 8 = 2 ^ 64" by simp
  then have "n mod 256 ^ 8 = n" using assms by simp
  then show ?thesis using assms
    by (simp add: to_bytes_def length_le_bytes from_bytes_le_bytes del: le_bytes.simps)
qed

lemma solders_Instruction_rejects_solana_py:
  "solders_Instruction (solana_py_key text) metas bytes = Inl TypeError"
  by (simp add: solders_Instruction_def solana_py_key_def)

lemma build_token_transfer_transaction_raises:
  "\<exists>e s'. build_token_transfer_transaction c source dest amt s = (Inl e, s')"
  by (simp add: build_token_transfer_transaction_def Let_def solders_Instruction_rejects_solana_py
      split: prod.splits sum.splits)

lemma build_token_transfer_transaction_reaches_constructor:
  assumes "get_recent_blockhash c (world s) = (Inr blockhash, w)"
    and "PublicKey c token_program_id = Inr program_text"
    and "PublicKey c source = Inr source_text"
    and "PublicKey c dest = Inr dest_text"
    and "0 \<le> amt" and "amt < 2 ^ 64"
  shows "\<exists>amount_bytes. length amount_bytes = 8 \<and> from_bytes amount_bytes = amt
       \<and> fst (build_token_transfer_transaction c source dest amt s) = Inl TypeError
       \<and> trace (snd (build_token_transfer_transaction c source dest amt s)) =
           trace s @
             [Call_get_recent_blockhash,
              Call_Instruction (solana_py_key program_text)
                [\<lparr>meta_class = Solana_py, pubkey = solana_py_key source_text,
                  is_signer = False, is_writable = True\<rparr>,
                 \<lparr>meta_class = Solana_py, pubkey = solana_py_key dest_text,
                  is_signer = False, is_writable = True\<rparr>,
                 \<lparr>meta_class = Solana_py, pubkey = solana_py_key (keypair_public_key c),
                  is_signer = True, is_writable = False\<rparr>]
                (3 # amount_bytes),
              Log (Error_building_transaction TypeError)]"
proof -
  from to_bytes_8 [OF assms(5,6)] obtain bs where
    bs: "to_bytes amt 8 = Inr bs" "length bs = 8" "from_bytes bs = amt" by blast
  show ?thesis
    using assms(1-4) bs
    by (simp add: build_token_transfer_transaction_def call_def emit_def Let_def
        solders_Instruction_rejects_solana_py)
qed

lemma to_bytes_704: "to_bytes 704 8 = Inr [192, 2, 0, 0, 0, 0, 0, 0]"
  by code_simp

text \<open>
  C9 does not hold of the code: the transaction it describes is never built. For the
  source \<open>wallet_token\<close>, the destination \<open>treasury_token\<close> and the amount 704, all
  valid, \<open>_build_token_transfer_transaction\<close> fetches the blockhash, calls the
  instruction constructor with the data bytes 3, 192, 2, 0, 0, 0, 0, 0, 0 (the byte 3 and
  704 in eight little-endian bytes) and the accounts source, destination, authority as
  C9 states them, and the constructor raises \<open>TypeError\<close>: the result is the error and
  not a transaction.
\<close>

theorem build_token_transfer_transaction_raises_type_error:
  "PublicKey example_client token_program_id = Inr token_program_id
   \<and> PublicKey example_client ''wallet_token'' = Inr ''wallet_token''
   \<and> PublicKey example_client ''treasury_token'' = Inr ''treasury_token''
   \<and> (0 :: int) \<le> 704 \<and> (704 :: int) < 2 ^ 64
   \<and> get_recent_blockhash example_client (world example_state) = (Inr ''blockhash'', ())
   \<and> fst (build_token_transfer_transaction example_client ''wallet_token'' ''treasury_token'' 704
         example_state) = Inl TypeError
   \<and> trace (snd (build_token_transfer_transaction example_client ''wallet_token'' ''treasury_token'' 704
         example_state)) =
       [Call_get_recent_blockhash,
        Call_Instruction \<lparr>key_class = Solana_py, key_text = token_program_id\<rparr>
          [\<lparr>meta_class = Solana_py, pubkey = \<lparr>key_class = Solana_py, key_text = ''wallet_token''\<rparr>,
            is_signer = False, is_writable = True\<rparr>,
           \<lparr>meta_class = Solana_py, pubkey = \<lparr>key_class = Solana_py, key_text = ''treasury_token''\<rparr>,
            is_signer = False, is_writable = True\<rparr>,
           \<lparr>meta_class = Solana_py, pubkey = \<lparr>key_class = Solana_py, key_text = ''authority''\<rparr>,
            is_signer = True, is_writable = False\<rparr>]
          [3, 192, 2, 0, 0, 0, 0, 0, 0],
        Log (Error_building_transaction TypeError)]
   \<and> from_bytes [192, 2, 0, 0, 0, 0, 0, 0] = 704"
  using to_bytes_704
  by (simp add: build_token_transfer_transaction_def call_def emit_def Let_def
      solders_Instruction_def solana_py_key_def example_client_def example_state_def)

section \<open>The redistribution legs (transfer_processor.py)\<close>

text \<open>
  The loop of \<open>_execute_redistribution\<close> sends the transactions it is given one after
  the other, in the order of the list: each is sent, its confirmation is awaited, a line
  is logged and one second is slept, whether the send raised, the confirmation arrived or
  it timed out; the result is \<open>True\<close> when every leg was confirmed.
\<close>

lemma sent_leg_events: "sent (leg_events cfg (tx_type, tx, amt) out) = [tx_type]"
  by (cases out) (simp_all add: leg_events_def)

lemma execute_transactions_trace:
  "\<exists>outs. length outs = length legs
     \<and> trace (snd (execute_transactions c cfg legs success s)) =
         trace s @ concat (map2 (leg_events cfg) legs outs)
     \<and> fst (execute_transactions c cfg legs success s) = (success \<and> list_all is_confirmed outs)"
proof (induction legs arbitrary: success s)
  case Nil
  show ?case by simp
next
  case (Cons l legs)
  obtain tx_type tx amt where l: "l = (tx_type, tx, amt)" by (cases l) auto
  obtain r w where send: "send_transaction c tx (world s) = (r, w)" by (cases "send_transaction c tx (world s)") auto
  show ?case
  proof (cases r)
    case (Inl e)
    let ?s' = "emit (Sleep 1) (emit (Log (Error_executing_transaction tx_type e))
      ((emit (Call_send_transaction tx_type tx) s)\<lparr>world := w\<rparr>))"
    from Cons.IH [of False ?s'] obtain outs where
      outs: "length outs = length legs"
        "trace (snd (execute_transactions c cfg legs False ?s')) =
           trace ?s' @ concat (map2 (leg_events cfg) legs outs)"
        "fst (execute_transactions c cfg legs False ?s') = (False \<and> list_all is_confirmed outs)"
      by blast
    have run: "execute_transactions c cfg (l # legs) success s = execute_transactions c cfg legs False ?s'"
      using send Inl by (simp add: l call_def)
    show ?thesis
      unfolding run using outs
      by (intro exI [of _ "SubmissionError e # outs"]) (simp add: l leg_events_def emit_def)
  next
    case (Inr sig)
    let ?s1 = "(emit (Call_send_transaction tx_type tx) s)\<lparr>world := w\<rparr>"
    obtain confirmed w2 where conf:
      "confirm_transaction c sig (CONFIRMATION_TIMEOUT cfg) w = (confirmed, w2)"
      by (cases "confirm_transaction c sig (CONFIRMATION_TIMEOUT cfg) w") auto
    let ?s2 = "(emit (Call_confirm_transaction tx_type sig (CONFIRMATION_TIMEOUT cfg)) ?s1)\<lparr>world := w2\<rparr>"
    show ?thesis
    proof (cases confirmed)
      case True
      let ?s' = "emit (Sleep 1) (emit (Log (Transaction_successful tx_type amt sig)) ?s2)"
      from Cons.IH [of success ?s'] obtain outs where
        outs: "length outs = length legs"
          "trace (snd (execute_transactions c cfg legs success ?s')) =
             trace ?s' @ concat (map2 (leg_events cfg) legs outs)"
          "fst (execute_transactions c cfg legs success ?s') = (success \<and> list_all is_confirmed outs)"
        by blast
      have run: "execute_transactions c cfg (l # legs) success s = execute_transactions c cfg legs success ?s'"
        using send Inr conf True by (simp add: l call_def emit_def)
      show ?thesis
        unfolding run using outs
        by (intro exI [of _ "Confirmed sig # outs"]) (simp add: l leg_events_def emit_def)
    next
      case False
      let ?s' = "emit (Sleep 1) (emit (Log (Transaction_timed_out tx_type)) ?s2)"
      from Cons.IH [of False ?s'] obtain outs where
        outs: "length outs = length legs"
          "trace (snd (execute_transactions c cfg legs False ?s')) =
             trace ?s' @ concat (map2 (leg_events cfg) legs outs)"
          "fst (execute_transactions c cfg legs False ?s') = (False \<and> list_all is_confirmed outs)"
        by blast
      have run: "execute_transactions c cfg (l # legs) success s = execute_transactions c cfg legs False ?s'"
        using send Inr conf False by (simp add: l call_def emit_def)
      show ?thesis
        unfolding run using outs
        by (intro exI [of _ "TimedOut sig # outs"]) (simp add: l leg_events_def emit_def)
    qed
  qed
qed

text \<open>
  The list is built before the loop starts, one transaction for each amount above zero,
  and every build raises (see above). So a redistribution with an amount above zero ends
  in the handler of \<open>_execute_redistribution\<close>, before the loop, with the result
  \<open>False\<close>; the loop runs only on the empty list; and no run of a redistribution, and so
  none of \<open>process_transfer\<close>, sends a transaction, fetches one or calls
  \<open>process_transfer\<close>.
\<close>

lemma sent_append: "sent (xs @ ys) = sent xs @ sent ys"
  by (induction xs rule: sent.induct) simp_all

lemma builds_append: "builds (xs @ ys) = builds xs + builds ys"
  by (induction xs rule: builds.induct) simp_all

lemma fetched_append: "fetched (xs @ ys) = fetched xs @ fetched ys"
  by (induction xs rule: fetched.induct) simp_all

lemma processed_append: "processed (xs @ ys) = processed xs @ processed ys"
  by (induction xs rule: processed.induct) simp_all

lemma silent_events: "list_all silent es \<Longrightarrow> sent es = [] \<and> fetched es = [] \<and> processed es = []"
proof (induction es)
  case Nil
  show ?case by simp
next
  case (Cons e es)
  then show ?case by (cases e) (simp_all add: silent_def)
qed

lemma find_token_account_for_owner_silent:
  "\<exists>es. trace (snd (find_token_account_for_owner c cfg owner s)) = trace s @ es
     \<and> list_all silent es \<and> builds es = 0"
  by (auto simp: find_token_account_for_owner_def call_def emit_def silent_def
      split: prod.splits sum.splits list.splits)

lemma build_token_transfer_transaction_silent:
  "\<exists>es. trace (snd (build_token_transfer_transaction c source dest amt s)) = trace s @ es
     \<and> list_all silent es \<and> builds es = 1"
  by (auto simp: build_token_transfer_transaction_def call_def emit_def silent_def Let_def
      solders_Instruction_rejects_solana_py split: prod.splits sum.splits)

lemma build_leg_cases:
  "(0 < amt \<and> (\<exists>e. fst (build_leg c tx_type source dest amt txs s) = Inl e)
      \<and> (\<exists>es. trace (snd (build_leg c tx_type source dest amt txs s)) = trace s @ es
            \<and> list_all silent es \<and> builds es = 1))
   \<or> (\<not> 0 < amt \<and> build_leg c tx_type source dest amt txs s = (Inr txs, s))"
proof (cases "0 < amt")
  case False
  then show ?thesis by (simp add: build_leg_def)
next
  case True
  from build_token_transfer_transaction_raises [of c source dest amt s] obtain e s' where
    r: "build_token_transfer_transaction c source dest amt s = (Inl e, s')" by blast
  from build_token_transfer_transaction_silent [of c source dest amt s] r obtain es where
    "trace s' = trace s @ es" "list_all silent es" "builds es = 1" by auto
  then show ?thesis using True r by (simp add: build_leg_def)
qed


lemma build_transactions_cases:
  "\<exists>es. trace (snd (build_transactions c cfg source b t f s)) = trace s @ es
     \<and> list_all silent es \<and> builds es \<le> 1
     \<and> (\<forall>legs. fst (build_transactions c cfg source b t f s) = Inr (Some legs) \<longrightarrow>
           legs = [] \<and> \<not> 0 < b \<and> \<not> 0 < t \<and> \<not> 0 < f)"
proof -
  obtain acc_b sa where fa: "find_token_account_for_owner c cfg (BURN_ADDRESS cfg) s = (acc_b, sa)"
    by (cases "find_token_account_for_owner c cfg (BURN_ADDRESS cfg) s") auto
  obtain acc_t sb where fb: "find_token_account_for_owner c cfg (TREASURY_ADDRESS cfg) sa = (acc_t, sb)"
    by (cases "find_token_account_for_owner c cfg (TREASURY_ADDRESS cfg) sa") auto
  obtain acc_f sc where fc: "find_token_account_for_owner c cfg (FEE_ADDRESS cfg) sb = (acc_f, sc)"
    by (cases "find_token_account_for_owner c cfg (FEE_ADDRESS cfg) sb") auto
  from find_token_account_for_owner_silent [of c cfg "BURN_ADDRESS cfg" s] fa
  obtain e1 where e1: "trace sa = trace s @ e1" "list_all silent e1" "builds e1 = 0" by auto
  from find_token_account_for_owner_silent [of c cfg "TREASURY_ADDRESS cfg" sa] fb
  obtain e2 where e2: "trace sb = trace sa @ e2" "list_all silent e2" "builds e2 = 0" by auto
  from find_token_account_for_owner_silent [of c cfg "FEE_ADDRESS cfg" sb] fc
  obtain e3 where e3: "trace sc = trace sb @ e3" "list_all silent e3" "builds e3 = 0" by auto
  have sc: "trace sc = trace s @ (e1 @ e2 @ e3)" "list_all silent (e1 @ e2 @ e3)"
    "builds (e1 @ e2 @ e3) = 0"
    using e1 e2 e3 by (simp_all add: builds_append)
  show ?thesis
  proof (cases "truthy acc_b \<and> truthy acc_t \<and> truthy acc_f")
    case False
    have "build_transactions c cfg source b t f s =
        (Inr None, emit (Log Failed_to_find_all_token_accounts) sc)"
      using False fa fb fc by (auto simp: build_transactions_def)
    moreover have "trace (emit (Log Failed_to_find_all_token_accounts) sc) =
        trace s @ (e1 @ e2 @ e3 @ [Log Failed_to_find_all_token_accounts])"
      using sc(1) by (simp add: emit_def)
    moreover have "list_all silent (e1 @ e2 @ e3 @ [Log Failed_to_find_all_token_accounts])"
      using sc(2) by (simp add: silent_def)
    moreover have "builds (e1 @ e2 @ e3 @ [Log Failed_to_find_all_token_accounts]) \<le> 1"
      using sc(3) by (simp add: builds_append)
    ultimately show ?thesis by (metis fst_conv snd_conv sum.inject option.distinct(1))
  next
    case True
    note found = this
    let ?b1 = "build_leg c ''Burn'' source (the acc_b) b [] sc"
    show ?thesis
    proof (cases "0 < b")
      case True
      from build_leg_cases [of b c "''Burn''" source "the acc_b" "[]" sc] True obtain e es where
        r: "fst ?b1 = Inl e" "trace (snd ?b1) = trace sc @ es" "list_all silent es" "builds es = 1"
        by auto
      have "build_transactions c cfg source b t f s = (Inl e, snd ?b1)"
        using found fa fb fc r(1) by (cases ?b1) (auto simp: build_transactions_def)
      moreover have "trace (snd ?b1) = trace s @ (e1 @ e2 @ e3 @ es)" using sc(1) r(2) by simp
      moreover have "list_all silent (e1 @ e2 @ e3 @ es)" using sc(2) r(3) by simp
      moreover have "builds (e1 @ e2 @ e3 @ es) \<le> 1" using e1 e2 e3 r(4) by (simp add: builds_append)
      ultimately show ?thesis by (metis fst_conv snd_conv sum.distinct(1))
    next
      case False
      note nb = this
      then have b1: "?b1 = (Inr [], sc)"
        using build_leg_cases [of b c "''Burn''" source "the acc_b" "[]" sc] by auto
      let ?b2 = "build_leg c ''Treasury'' source (the acc_t) t [] sc"
      show ?thesis
      proof (cases "0 < t")
        case True
        from build_leg_cases [of t c "''Treasury''" source "the acc_t" "[]" sc] True obtain e es where
          r: "fst ?b2 = Inl e" "trace (snd ?b2) = trace sc @ es" "list_all silent es" "builds es = 1"
          by auto
        have "build_transactions c cfg source b t f s = (Inl e, snd ?b2)"
          using found fa fb fc b1 r(1) by (cases ?b2) (auto simp: build_transactions_def)
        moreover have "trace (snd ?b2) = trace s @ (e1 @ e2 @ e3 @ es)" using sc(1) r(2) by simp
        moreover have "list_all silent (e1 @ e2 @ e3 @ es)" using sc(2) r(3) by simp
        moreover have "builds (e1 @ e2 @ e3 @ es) \<le> 1" using e1 e2 e3 r(4) by (simp add: builds_append)
        ultimately show ?thesis by (metis fst_conv snd_conv sum.distinct(1))
      next
        case False
        note nt = this
        then have b2: "?b2 = (Inr [], sc)"
          using build_leg_cases [of t c "''Treasury''" source "the acc_t" "[]" sc] by auto
        let ?b3 = "build_leg c ''Fee'' source (the acc_f) f [] sc"
        show ?thesis
        proof (cases "0 < f")
          case True
          from build_leg_cases [of f c "''Fee''" source "the acc_f" "[]" sc] True obtain e es where
            r: "fst ?b3 = Inl e" "trace (snd ?b3) = trace sc @ es" "list_all silent es" "builds es = 1"
            by auto
          have "build_transactions c cfg source b t f s = (Inl e, snd ?b3)"
            using found fa fb fc b1 b2 r(1) by (cases ?b3) (auto simp: build_transactions_def)
          moreover have "trace (snd ?b3) = trace s @ (e1 @ e2 @ e3 @ es)" using sc(1) r(2) by simp
          moreover have "list_all silent (e1 @ e2 @ e3 @ es)" using sc(2) r(3) by simp
          moreover have "builds (e1 @ e2 @ e3 @ es) \<le> 1"
            using e1 e2 e3 r(4) by (simp add: builds_append)
          ultimately show ?thesis by (metis fst_conv snd_conv sum.distinct(1))
        next
          case False
          then have b3: "?b3 = (Inr [], sc)"
            using build_leg_cases [of f c "''Fee''" source "the acc_f" "[]" sc] by auto
          have "build_transactions c cfg source b t f s = (Inr (Some []), sc)"
            using found fa fb fc b1 b2 b3 by (simp add: build_transactions_def)
          then show ?thesis using sc nb nt False by auto
        qed
      qed
    qed
  qed
qed

lemma execute_redistribution_sends_nothing:
  "\<exists>es. trace (snd (execute_redistribution c cfg source b t f s)) = trace s @ es
     \<and> list_all silent es \<and> builds es \<le> 1
     \<and> (0 < b \<or> 0 < t \<or> 0 < f \<longrightarrow> \<not> fst (execute_redistribution c cfg source b t f s))"
proof -
  obtain r s1 where bt: "build_transactions c cfg source b t f s = (r, s1)"
    by (cases "build_transactions c cfg source b t f s") auto
  from build_transactions_cases [of c cfg source b t f s] bt obtain es where
    es: "trace s1 = trace s @ es" "list_all silent es" "builds es \<le> 1"
      "\<forall>legs. r = Inr (Some legs) \<longrightarrow> legs = [] \<and> \<not> 0 < b \<and> \<not> 0 < t \<and> \<not> 0 < f"
    by auto
  show ?thesis
  proof (cases r)
    case (Inl e)
    have "trace (emit (Log (Error_executing_redistribution e)) s1) =
        trace s @ (es @ [Log (Error_executing_redistribution e)])"
      using es(1) by (simp add: emit_def)
    moreover have "list_all silent (es @ [Log (Error_executing_redistribution e)])"
      using es(2) by (simp add: silent_def)
    moreover have "builds (es @ [Log (Error_executing_redistribution e)]) \<le> 1"
      using es(3) by (simp add: builds_append)
    ultimately show ?thesis using bt Inl by (auto simp: execute_redistribution_def)
  next
    case (Inr legs_opt)
    show ?thesis
    proof (cases legs_opt)
      case None
      then show ?thesis using bt Inr es by (auto simp: execute_redistribution_def)
    next
      case (Some legs)
      with es(4) Inr have "legs = []" "\<not> 0 < b" "\<not> 0 < t" "\<not> 0 < f" by auto
      then show ?thesis using bt Inr Some es by (auto simp: execute_redistribution_def)
    qed
  qed
qed

lemma process_transfer_silent:
  "\<exists>es. trace (snd (process_transfer c cfg d s)) = trace s @ es \<and> list_all silent es"
proof (cases "amount d < MIN_TRANSFER_AMOUNT cfg")
  case True
  then show ?thesis by (simp add: process_transfer_def Let_def emit_def silent_def)
next
  case False
  show ?thesis
  proof (cases "redistribution_amounts cfg (amount d)")
    case (Inl e)
    then show ?thesis using False by (simp add: process_transfer_def Let_def emit_def silent_def)
  next
    case (Inr plan)
    obtain b t f where plan: "plan = (b, t, f)" by (cases plan) auto
    let ?s1 = "emit (Log (Redistribution_plan b t f))
      (emit (Log (Processing_transfer (amount d) (destination d) (transaction_id d))) s)"
    from execute_redistribution_sends_nothing [of c cfg "destination d" b t f ?s1]
    obtain es where es: "trace (snd (execute_redistribution c cfg (destination d) b t f ?s1)) = trace ?s1 @ es"
      "list_all silent es" by blast
    have "trace (snd (process_transfer c cfg d s)) =
        trace s @ ([Log (Processing_transfer (amount d) (destination d) (transaction_id d)),
          Log (Redistribution_plan b t f)] @ es)"
      using False Inr plan es(1) by (simp add: process_transfer_def Let_def emit_def)
    moreover have "list_all silent ([Log (Processing_transfer (amount d) (destination d) (transaction_id d)),
          Log (Redistribution_plan b t f)] @ es)"
      using es(2) by (simp add: silent_def)
    ultimately show ?thesis by blast
  qed
qed

lemma example_plan_2000: "redistribution_amounts example_config 2000 = Inr (100, 1400, 500)"
  by code_simp

lemma example_plan_no_burn:
  "redistribution_amounts
     (example_config\<lparr>BURN_PERCENTAGE := 0, TREASURY_PERCENTAGE := 80, FEE_PERCENTAGE := 20\<rparr>) 1000
   = Inr (0, 800, 200)"
  by code_simp

lemma to_bytes_100: "to_bytes 100 8 = Inr [100, 0, 0, 0, 0, 0, 0, 0]"
  by code_simp

lemma to_bytes_800: "to_bytes 800 8 = Inr [32, 3, 0, 0, 0, 0, 0, 0]"
  by code_simp

text \<open>
  C5 does not hold of the code: no leg is attempted. For a transfer of 2000 to the
  wallet's token account (the minimum is 1000) the plan is 100 for Burn, 1400 for
  Treasury and 500 for Fee. The three token accounts are found, the build of the Burn
  transaction raises \<open>TypeError\<close>, the error is logged twice and \<open>process_transfer\<close>
  returns \<open>False\<close>: nothing is sent, neither Burn nor Treasury nor Fee, on a ledger
  that would have confirmed Burn and Fee and let Treasury time out.
\<close>

theorem redistribution_sends_no_leg:
  "MIN_TRANSFER_AMOUNT example_config \<le> 2000
   \<and> redistribution_amounts example_config 2000 = Inr (100, 1400, 500)
   \<and> fst (process_transfer example_client example_config
        \<lparr>transaction_id = ''T'', destination = ''wallet_token'', amount = 2000,
         timestamp = 1700000000\<rparr> example_state) = False
   \<and> trace (snd (process_transfer example_client example_config
        \<lparr>transaction_id = ''T'', destination = ''wallet_token'', amount = 2000,
         timestamp = 1700000000\<rparr> example_state)) =
       [Log (Processing_transfer 2000 ''wallet_token'' ''T''),
        Log (Redistribution_plan 100 1400 500),
        Call_get_token_accounts_by_owner ''burn'' ''nexa'',
        Call_get_token_accounts_by_owner ''treasury'' ''nexa'',
        Call_get_token_accounts_by_owner ''fee'' ''nexa'',
        Call_get_recent_blockhash,
        Call_Instruction \<lparr>key_class = Solana_py, key_text = token_program_id\<rparr>
          [\<lparr>meta_class = Solana_py, pubkey = \<lparr>key_class = Solana_py, key_text = ''wallet_token''\<rparr>,
            is_signer = False, is_writable = True\<rparr>,
           \<lparr>meta_class = Solana_py, pubkey = \<lparr>key_class = Solana_py, key_text = ''burn_token''\<rparr>,
            is_signer = False, is_writable = True\<rparr>,
           \<lparr>meta_class = Solana_py, pubkey = \<lparr>key_class = Solana_py, key_text = ''authority''\<rparr>,
            is_signer = True, is_writable = False\<rparr>]
          [3, 100, 0, 0, 0, 0, 0, 0, 0],
        Log (Error_building_transaction TypeError),
        Log (Error_executing_redistribution TypeError)]
   \<and> sent (trace (snd (process_transfer example_client example_config
        \<lparr>transaction_id = ''T'', destination = ''wallet_token'', amount = 2000,
         timestamp = 1700000000\<rparr> example_state))) = []"
  using example_plan_2000 to_bytes_100 by (simp add: run_defs)

text \<open>
  C10 holds of the code in its first half only. With 0, 80 and 20 percent, a transfer of
  1000 is planned as 0 for Burn, 800 for Treasury and 200 for Fee. No transaction is
  built for Burn: the one build (one blockhash fetched) is that of the Treasury leg, of
  800. That build raises \<open>TypeError\<close>, and the legs with positive amounts, Treasury
  and Fee, are not executed: nothing is sent and the result is \<open>False\<close>.
\<close>

theorem redistribution_skips_zero_leg_and_sends_none:
  "MIN_TRANSFER_AMOUNT example_config \<le> 1000
   \<and> redistribution_amounts
        (example_config\<lparr>BURN_PERCENTAGE := 0, TREASURY_PERCENTAGE := 80, FEE_PERCENTAGE := 20\<rparr>) 1000
       = Inr (0, 800, 200)
   \<and> fst (process_transfer example_client
        (example_config\<lparr>BURN_PERCENTAGE := 0, TREASURY_PERCENTAGE := 80, FEE_PERCENTAGE := 20\<rparr>)
        \<lparr>transaction_id = ''T'', destination = ''wallet_token'', amount = 1000,
         timestamp = 1700000000\<rparr> example_state) = False
   \<and> trace (snd (process_transfer example_client
        (example_config\<lparr>BURN_PERCENTAGE := 0, TREASURY_PERCENTAGE := 80, FEE_PERCENTAGE := 20\<rparr>)
        \<lparr>transaction_id = ''T'', destination = ''wallet_token'', amount = 1000,
         timestamp = 1700000000\<rparr> example_state)) =
       [Log (Processing_transfer 1000 ''wallet_token'' ''T''),
        Log (Redistribution_plan 0 800 200),
        Call_get_token_accounts_by_owner ''burn'' ''nexa'',
        Call_get_token_accounts_by_owner ''treasury'' ''nexa'',
        Call_get_token_accounts_by_owner ''fee'' ''nexa'',
        Call_get_recent_blockhash,
        Call_Instruction \<lparr>key_class = Solana_py, key_text = token_program_id\<rparr>
          [\<lparr>meta_class = Solana_py, pubkey = \<lparr>key_class = Solana_py, key_text = ''wallet_token''\<rparr>,
            is_signer = False, is_writable = True\<rparr>,
           \<lparr>meta_class = Solana_py, pubkey = \<lparr>key_class = Solana_py, key_text = ''treasury_token''\<rparr>,
            is_signer = False, is_writable = True\<rparr>,
           \<lparr>meta_class = Solana_py, pubkey = \<lparr>key_class = Solana_py, key_text = ''authority''\<rparr>,
            is_signer = True, is_writable = False\<rparr>]
          [3, 32, 3, 0, 0, 0, 0, 0, 0],
        Log (Error_building_transaction TypeError),
        Log (Error_executing_redistribution TypeError)]
   \<and> builds (trace (snd (process_transfer example_client
        (example_config\<lparr>BURN_PERCENTAGE := 0, TREASURY_PERCENTAGE := 80, FEE_PERCENTAGE := 20\<rparr>)
        \<lparr>transaction_id = ''T'', destination = ''wallet_token'', amount = 1000,
         timestamp = 1700000000\<rparr> example_state))) = 1
   \<and> sent (trace (snd (process_transfer example_client
        (example_config\<lparr>BURN_PERCENTAGE := 0, TREASURY_PERCENTAGE := 80, FEE_PERCENTAGE := 20\<rparr>)
        \<lparr>transaction_id = ''T'', destination = ''wallet_token'', amount = 1000,
         timestamp = 1700000000\<rparr> example_state))) = []"
  using example_plan_no_burn to_bytes_800 by (simp add: run_defs)

section \<open>Classifying a transaction (transaction_monitor.py)\<close>


lemma set_update_subset: "set (AList.update k v d) \<subseteq> insert (k, v) (set d)"
  by (induction d) auto

lemma balances_fold_subset:
  "snd ` set (fold (\<lambda>b d. AList.update (accountIndex b) b d) bs d0) \<subseteq> set bs \<union> snd ` set d0"
proof (induction bs arbitrary: d0)
  case Nil
  show ?case by simp
next
  case (Cons b bs)
  have "snd ` set (AList.update (accountIndex b) b d0) \<subseteq> insert b (snd ` set d0)"
    using set_update_subset [of "accountIndex b" b d0] by force
  with Cons.IH [of "AList.update (accountIndex b) b d0"] show ?case by auto
qed

lemma balances_by_index_subset: "(idx, b) \<in> set (balances_by_index bs) \<Longrightarrow> b \<in> set bs"
  using balances_fold_subset [of bs "[]"] by (force simp: balances_by_index_def)

lemma scan_instructions_True:
  assumes "list_ex (\<lambda>balance. mint balance = Some m) (postTokenBalances t @ preTokenBalances t)"
    and "\<exists>i \<in> set is. programId i = Some token_program_id \<and> starts_with_3 (ix_data i)"
  shows "scan_instructions m t is"
  using assms by (induction "is") auto

lemma extract_loop_find:
  assumes "first_signature t = Inr sig"
  shows "extract_loop m tracked t (balances_by_index (preTokenBalances t)) items =
     Inr (case find (credited m tracked t) items of
            None \<Rightarrow> None
          | Some (idx, post_balance) \<Rightarrow>
              Some \<lparr>transaction_id = sig,
                    destination = accountKeys t ! accountIndex post_balance,
                    amount = balance_amount (Some post_balance)
                      - balance_amount (map_of (balances_by_index (preTokenBalances t)) idx),
                    timestamp = (case blockTime t of None \<Rightarrow> 0 | Some b \<Rightarrow> b)\<rparr>)"
proof (induction items)
  case Nil
  show ?case by simp
next
  case (Cons entry items)
  obtain idx post_balance where e: "entry = (idx, post_balance)" by (cases entry) auto
  show ?case using Cons.IH assms by (simp add: e credited_def Let_def)
qed

text \<open>
  C4. Take a transaction record that succeeded (\<open>err\<close> is null), that has an instruction
  of the token program whose data text starts with 3 (the code's test for the transfer
  opcode), that carries its transaction id, and whose post-balances hold a credit: an
  entry of the tracked mint whose amount exceeds the pre-balance at its position, at a
  position that is a tracked account's. Then classification yields a transfer event. Its
  amount is post-balance minus pre-balance and its destination the account at that
  position, for the first credit among the post-balances; when the record holds one
  credit only, that is the entry given.
\<close>

theorem classify_credit:
  assumes "err t = None"
    and "\<exists>i \<in> set (message_instructions t). programId i = Some token_program_id \<and> starts_with_3 (ix_data i)"
    and "first_signature t = Inr sig"
    and "entry \<in> set (balances_by_index (postTokenBalances t))"
    and "credited m tracked t entry"
  shows "\<exists>idx post_balance.
           find (credited m tracked t) (balances_by_index (postTokenBalances t)) = Some (idx, post_balance)
         \<and> classify m tracked t =
             Some \<lparr>transaction_id = sig,
                   destination = accountKeys t ! accountIndex post_balance,
                   amount = balance_amount (Some post_balance)
                     - balance_amount (map_of (balances_by_index (preTokenBalances t)) idx),
                   timestamp = (case blockTime t of None \<Rightarrow> 0 | Some b \<Rightarrow> b)\<rparr>
         \<and> (length (filter (credited m tracked t) (balances_by_index (postTokenBalances t))) = 1
              \<longrightarrow> entry = (idx, post_balance))"
proof -
  let ?items = "balances_by_index (postTokenBalances t)"
  have "find (credited m tracked t) ?items \<noteq> None"
    using assms(4,5) unfolding find_None_iff by blast
  then obtain first where first: "find (credited m tracked t) ?items = Some first"
    by blast
  obtain idx post_balance where f: "first = (idx, post_balance)" by (cases first) auto
  obtain eidx eb where e: "entry = (eidx, eb)" by (cases entry) auto
  have "eb \<in> set (postTokenBalances t)" using assms(4) e by (auto dest: balances_by_index_subset)
  moreover have "mint eb = Some m" using assms(5) e by (simp add: credited_def)
  ultimately have "list_ex (\<lambda>balance. mint balance = Some m) (postTokenBalances t @ preTokenBalances t)"
    by (auto simp: list_ex_iff)
  then have "is_nexacoin_transfer m t"
    using assms(1,2) by (simp add: is_nexacoin_transfer_def scan_instructions_True)
  then have "classify m tracked t =
             Some \<lparr>transaction_id = sig,
                   destination = accountKeys t ! accountIndex post_balance,
                   amount = balance_amount (Some post_balance)
                     - balance_amount (map_of (balances_by_index (preTokenBalances t)) idx),
                   timestamp = (case blockTime t of None \<Rightarrow> 0 | Some b \<Rightarrow> b)\<rparr>"
    using extract_loop_find [OF assms(3), of m tracked ?items] first f
    by (simp add: classify_def extract_transfer_details_def)
  moreover have "entry = (idx, post_balance)"
    if one: "length (filter (credited m tracked t) ?items) = 1"
  proof -
    from one obtain x where x: "filter (credited m tracked t) ?items = [x]"
      by (auto simp: length_Suc_conv)
    have "entry \<in> set (filter (credited m tracked t) ?items)" using assms(4,5) by simp
    moreover have "first \<in> set (filter (credited m tracked t) ?items)"
      using first by (auto simp: find_Some_iff)
    ultimately show ?thesis using x f by simp
  qed
  ultimately show ?thesis using first f by blast
qed


lemmas example_defs = example_transfer_def balances_by_index_def credited_def balance_amount_def
  first_signature_def starts_with_3_def token_program_id_def

theorem classify_credit_witness:
  "err (example_transfer ''sig1'') = None
   \<and> (\<exists>i \<in> set (message_instructions (example_transfer ''sig1'')).
         programId i = Some token_program_id \<and> starts_with_3 (ix_data i))
   \<and> first_signature (example_transfer ''sig1'') = Inr ''sig1''
   \<and> (1, \<lparr>accountIndex = 1, mint = Some ''nexa'', uiTokenAmount = Some 2500\<rparr>)
         \<in> set (balances_by_index (postTokenBalances (example_transfer ''sig1'')))
   \<and> credited ''nexa'' [''wallet_token''] (example_transfer ''sig1'')
         (1, \<lparr>accountIndex = 1, mint = Some ''nexa'', uiTokenAmount = Some 2500\<rparr>)
   \<and> classify ''nexa'' [''wallet_token''] (example_transfer ''sig1'') =
         Some \<lparr>transaction_id = ''sig1'', destination = ''wallet_token'', amount = 2000,
               timestamp = 1700000000\<rparr>"
proof -
  let ?t = "example_transfer ''sig1''"
  let ?entry = "(1 :: nat, \<lparr>accountIndex = 1, mint = Some ''nexa'', uiTokenAmount = Some 2500\<rparr>)"
  have h1: "err ?t = None" by (simp add: example_defs)
  have h2: "\<exists>i \<in> set (message_instructions ?t).
         programId i = Some token_program_id \<and> starts_with_3 (ix_data i)"
    by (simp add: example_defs)
  have h3: "first_signature ?t = Inr ''sig1''" by (simp add: example_defs)
  have h4: "?entry \<in> set (balances_by_index (postTokenBalances ?t))" by (simp add: example_defs)
  have h5: "credited ''nexa'' [''wallet_token''] ?t ?entry" by (simp add: example_defs)
  have one: "length (filter (credited ''nexa'' [''wallet_token''] ?t)
      (balances_by_index (postTokenBalances ?t))) = 1"
    by (simp add: example_defs)
  from classify_credit [OF h1 h2 h3 h4 h5] one
  have "classify ''nexa'' [''wallet_token''] ?t =
         Some \<lparr>transaction_id = ''sig1'', destination = ''wallet_token'', amount = 2000,
               timestamp = 1700000000\<rparr>"
    by (auto simp: example_defs)
  with h1 h2 h3 h4 h5 show ?thesis by blast
qed

section \<open>Scanning an account (transaction_monitor.py)\<close>

lemmas scan_defs = check_account_transactions_def scan_account_def classify_def
  is_nexacoin_transfer_def extract_transfer_details_def history_client_def
  example_transfer_def balances_by_index_def balance_amount_def first_signature_def
  starts_with_3_def check_for_new_transactions_def ledger_client_def listing_def
  history_of_def slot_of_def example_histories_def



lemma call_trace: "call e f s = (r, s') \<Longrightarrow> trace s' = trace s @ [e]"
  by (auto simp: call_def emit_def split: prod.splits)

lemma call_last_signature: "call e f s = (r, s') \<Longrightarrow> last_signature s' = last_signature s"
  by (auto simp: call_def emit_def split: prod.splits)

lemma process_signatures_events:
  "\<exists>es. trace (snd (process_signatures c cfg newest sigs s)) = trace s @ es
     \<and> set (fetched es) \<subseteq> set (map signature sigs)
     \<and> set (processed es) \<subseteq> set (map signature sigs)"
proof (induction sigs arbitrary: s)
  case Nil
  show ?case by simp
next
  case (Cons sig_info rest)
  show ?case
  proof (cases "Some (signature sig_info) = last_signature s")
    case True
    from Cons.IH [of s] obtain es where
      "trace (snd (process_signatures c cfg newest rest s)) = trace s @ es"
      "set (fetched es) \<subseteq> set (map signature rest)"
      "set (processed es) \<subseteq> set (map signature rest)" by blast
    then show ?thesis using True by auto
  next
    case False
    obtain r s1 where g: "call (Call_get_transaction (signature sig_info))
        (get_transaction c (signature sig_info)) (s\<lparr>last_signature := Some newest\<rparr>) = (r, s1)"
      by (cases "call (Call_get_transaction (signature sig_info))
        (get_transaction c (signature sig_info)) (s\<lparr>last_signature := Some newest\<rparr>)") auto
    from call_trace [OF g] have t1: "trace s1 = trace s @ [Call_get_transaction (signature sig_info)]"
      by simp
    have rest: "\<exists>es. trace (snd (process_signatures c cfg newest rest s1)) = trace s @ es
        \<and> set (fetched es) \<subseteq> set (map signature (sig_info # rest))
        \<and> set (processed es) \<subseteq> set (map signature (sig_info # rest))"
    proof -
      from Cons.IH [of s1] obtain es where es:
        "trace (snd (process_signatures c cfg newest rest s1)) = trace s1 @ es"
        "set (fetched es) \<subseteq> set (map signature rest)"
        "set (processed es) \<subseteq> set (map signature rest)" by blast
      have "trace (snd (process_signatures c cfg newest rest s1)) =
          trace s @ (Call_get_transaction (signature sig_info) # es)"
        using es(1) t1 by simp
      moreover have "set (fetched (Call_get_transaction (signature sig_info) # es))
          \<subseteq> set (map signature (sig_info # rest))" using es(2) by auto
      moreover have "set (processed (Call_get_transaction (signature sig_info) # es))
          \<subseteq> set (map signature (sig_info # rest))" using es(3) by auto
      ultimately show ?thesis by blast
    qed
    show ?thesis
    proof (cases r)
      case (Inl e)
      have "trace s1 = trace s @ [Call_get_transaction (signature sig_info)]
          \<and> set (fetched [Call_get_transaction (signature sig_info)]) \<subseteq> set (map signature (sig_info # rest))
          \<and> set (processed [Call_get_transaction (signature sig_info)]) \<subseteq> set (map signature (sig_info # rest))"
        using t1 by simp
      then have "\<exists>es. trace s1 = trace s @ es
          \<and> set (fetched es) \<subseteq> set (map signature (sig_info # rest))
          \<and> set (processed es) \<subseteq> set (map signature (sig_info # rest))" by blast
      then show ?thesis using False g Inl by simp
    next
      case (Inr fetched_tx)
      show ?thesis
      proof (cases fetched_tx)
        case None
        then show ?thesis using False g Inr rest by simp
      next
        case (Some t)
        show ?thesis
        proof (cases "classify (NEXACOIN_MINT cfg) (token_accounts s1) t")
          case None
          then show ?thesis using False g Inr Some rest by simp
        next
          case (Some d)
          let ?s2 = "emit (Call_process_transfer (signature sig_info) d)
            (emit (Log (Detected_incoming_transfer (amount d) (destination d))) s1)"
          obtain ok s3 where p: "process_transfer c cfg d ?s2 = (ok, s3)"
            by (cases "process_transfer c cfg d ?s2") auto
          from process_transfer_silent [of c cfg d ?s2] p
          obtain e2 where e2: "trace s3 = trace ?s2 @ e2" "list_all silent e2" by auto
          from silent_events [OF e2(2)] have q: "fetched e2 = []" "processed e2 = []" by simp_all
          from Cons.IH [of s3] obtain es where es:
            "trace (snd (process_signatures c cfg newest rest s3)) = trace s3 @ es"
            "set (fetched es) \<subseteq> set (map signature rest)"
            "set (processed es) \<subseteq> set (map signature rest)" by blast
          let ?ev = "[Call_get_transaction (signature sig_info),
              Log (Detected_incoming_transfer (amount d) (destination d)),
              Call_process_transfer (signature sig_info) d] @ e2 @ es"
          have "trace (snd (process_signatures c cfg newest rest s3)) = trace s @ ?ev"
            using es(1) e2(1) t1 by (simp add: emit_def)
          moreover have "set (fetched ?ev) \<subseteq> set (map signature (sig_info # rest))"
            using es(2) q by (auto simp: fetched_append)
          moreover have "set (processed ?ev) \<subseteq> set (map signature (sig_info # rest))"
            using es(3) q by (auto simp: processed_append)
          ultimately have "\<exists>es. trace (snd (process_signatures c cfg newest rest s3)) = trace s @ es
              \<and> set (fetched es) \<subseteq> set (map signature (sig_info # rest))
              \<and> set (processed es) \<subseteq> set (map signature (sig_info # rest))" by blast
          then show ?thesis using False g Inr \<open>fetched_tx = Some t\<close> Some p by simp
        qed
      qed
    qed
  qed
qed

lemma check_account_transactions_starts:
  "\<exists>es. trace (check_account_transactions c cfg account s) =
     trace s @ Call_get_signatures_for_address account (last_signature s) 20 # es"
proof -
  obtain r s1 where g: "call (Call_get_signatures_for_address account (last_signature s) 20)
      (get_signatures_for_address c account (last_signature s) 20) s = (r, s1)"
    by (cases "call (Call_get_signatures_for_address account (last_signature s) 20)
      (get_signatures_for_address c account (last_signature s) 20) s") auto
  from call_trace [OF g]
  have t1: "trace s1 = trace s @ [Call_get_signatures_for_address account (last_signature s) 20]" .
  show ?thesis
  proof (cases r)
    case (Inl e)
    then show ?thesis using g t1
      by (simp add: check_account_transactions_def scan_account_def emit_def)
  next
    case (Inr page)
    show ?thesis
    proof (cases page)
      case Nil
      then show ?thesis using g t1 Inr
        by (simp add: check_account_transactions_def scan_account_def)
    next
      case (Cons first others)
      show ?thesis
      proof (cases "truthy (last_signature s1)")
        case False
        then show ?thesis using g t1 Inr Cons
          by (simp add: check_account_transactions_def scan_account_def emit_def)
      next
        case True
        obtain r2 s2 where p: "process_signatures c cfg (signature first) (rev (first # others)) s1 = (r2, s2)"
          by (cases "process_signatures c cfg (signature first) (rev (first # others)) s1") auto
        from process_signatures_events [of c cfg "signature first" "rev (first # others)" s1] p
        obtain es where "trace s2 = trace s1 @ es" by auto
        then show ?thesis using g t1 Inr Cons True p
          by (cases r2) (simp_all add: check_account_transactions_def scan_account_def emit_def)
      qed
    qed
  qed
qed



text \<open>
  The monitor is created with the cursor unset. A scan made while the cursor is unset
  fetches no transaction and passes none to \<open>process_transfer\<close>; when the page is
  not empty the cursor becomes the id of its first entry, the newest; when the page is
  empty, or the listing raises, the cursor stays unset.
\<close>

lemma floor_rat_half: "\<lfloor>1 / 2 :: rat\<rfloor> = 0"
  by (rule floor_unique) simp_all

lemma init_monitor_cursor_unset: "last_signature (init_monitor c cfg w) = None"
  by (simp add: init_monitor_def get_monitored_token_accounts_def call_def emit_def
      split: prod.splits sum.splits)

lemma first_scan_baseline:
  assumes "\<not> truthy (last_signature s)"
    and "get_signatures_for_address c account (last_signature s) 20 (world s) = (r, w)"
  shows "fetched (trace (check_account_transactions c cfg account s)) = fetched (trace s)
       \<and> processed (trace (check_account_transactions c cfg account s)) = processed (trace s)
       \<and> last_signature (check_account_transactions c cfg account s) =
           (case r of
              Inl e \<Rightarrow> last_signature s
            | Inr [] \<Rightarrow> last_signature s
            | Inr (first # others) \<Rightarrow> Some (signature first))
       \<and> trace (check_account_transactions c cfg account s) =
           trace s @ Call_get_signatures_for_address account (last_signature s) 20 #
             (case r of
                Inl e \<Rightarrow> [Log (Error_checking_transactions account e)]
              | Inr [] \<Rightarrow> []
              | Inr (first # others) \<Rightarrow> [Log (Initial_signature_set (signature first))])"
proof (cases r)
  case (Inl e)
  show ?thesis
    using assms(2) by (simp add: Inl check_account_transactions_def scan_account_def call_def
        emit_def fetched_append processed_append)
next
  case (Inr page)
  show ?thesis
  proof (cases page)
    case Nil
    show ?thesis
      using assms(2) by (simp add: Inr Nil check_account_transactions_def scan_account_def call_def
          emit_def fetched_append processed_append)
  next
    case (Cons first others)
    show ?thesis
      using assms by (simp add: Inr Cons check_account_transactions_def scan_account_def call_def
          emit_def fetched_append processed_append)
  qed
qed

text \<open>
  C6 does not hold of the code for an account scanned after another one. In the first
  round of the monitor the wallet is scanned first: its history is A, B, nothing is
  processed and the cursor becomes A. The first scan of the wallet's token account comes
  next, finds the cursor set and takes no baseline: it lists the records before A, which
  are C and D, fetches D and passes it to \<open>process_transfer\<close>, and leaves the cursor at
  C. A record of the history is processed on the first scan of the account.
\<close>

theorem first_scan_of_token_account_processes_history:
  "token_accounts example_state = [''wallet_token'']
   \<and> last_signature example_state = None
   \<and> listing example_histories ''wallet'' None 20 =
       [\<lparr>signature = ''A'', slot = 9\<rparr>, \<lparr>signature = ''B'', slot = 5\<rparr>]
   \<and> listing example_histories ''wallet_token'' (Some ''A'') 20 =
       [\<lparr>signature = ''C'', slot = 8\<rparr>, \<lparr>signature = ''D'', slot = 4\<rparr>]
   \<and> trace (check_account_transactions ledger_client example_config ''wallet'' example_state) =
       [Call_get_signatures_for_address ''wallet'' None 20, Log (Initial_signature_set ''A'')]
   \<and> fetched (trace (check_for_new_transactions ledger_client example_config example_state)) = [''D'']
   \<and> processed (trace (check_for_new_transactions ledger_client example_config example_state)) = [''D'']
   \<and> last_signature (check_for_new_transactions ledger_client example_config example_state) = Some ''C''"
  using example_plan_2000 to_bytes_100 by (simp add: scan_defs run_defs floor_rat_half)

text \<open>
  C7, as amended. There is one cursor, \<open>last_signature\<close>, for all accounts: a scan of
  any account pages from the value the scan before it left, whichever account that scan
  was of. Once the first scan of an account \<open>a\<close> has set the cursor to the newest id
  of its page, the scan of any account \<open>b\<close> that follows asks for the signatures
  before that id.
\<close>

theorem cursor_shared_between_accounts:
  assumes "\<not> truthy (last_signature s)"
    and "get_signatures_for_address c a (last_signature s) 20 (world s) = (Inr (first # others), w)"
  shows "last_signature (check_account_transactions c cfg a s) = Some (signature first)
       \<and> (\<exists>es. trace (check_account_transactions c cfg b (check_account_transactions c cfg a s)) =
             trace (check_account_transactions c cfg a s)
               @ Call_get_signatures_for_address b (Some (signature first)) 20 # es)"
proof -
  have cur: "last_signature (check_account_transactions c cfg a s) = Some (signature first)"
    using assms
    by (simp add: check_account_transactions_def scan_account_def call_def emit_def)
  from check_account_transactions_starts [of c cfg b "check_account_transactions c cfg a s"]
  show ?thesis by (simp add: cur)
qed

text \<open>The witness: the wallet is scanned first, then its token account.\<close>

theorem cursor_shared_between_accounts_witness:
  "\<not> truthy (last_signature example_state)
   \<and> get_signatures_for_address (history_client [\<lparr>signature = ''A'', slot = 7\<rparr>]) ''wallet''
         (last_signature example_state) 20 (world example_state) =
       (Inr [\<lparr>signature = ''A'', slot = 7\<rparr>], ())
   \<and> last_signature (check_account_transactions (history_client [\<lparr>signature = ''A'', slot = 7\<rparr>])
         example_config ''wallet'' example_state) = Some ''A''
   \<and> (\<exists>es. trace (check_account_transactions (history_client [\<lparr>signature = ''A'', slot = 7\<rparr>])
             example_config ''wallet_token''
             (check_account_transactions (history_client [\<lparr>signature = ''A'', slot = 7\<rparr>])
                example_config ''wallet'' example_state)) =
           trace (check_account_transactions (history_client [\<lparr>signature = ''A'', slot = 7\<rparr>])
                example_config ''wallet'' example_state)
             @ Call_get_signatures_for_address ''wallet_token'' (Some ''A'') 20 # es)"
proof -
  let ?c = "history_client [\<lparr>signature = ''A'', slot = 7\<rparr>]"
  have h1: "\<not> truthy (last_signature example_state)"
    by (simp add: truthy_def example_state_def)
  have h2: "get_signatures_for_address ?c ''wallet'' (last_signature example_state) 20
      (world example_state) = (Inr [\<lparr>signature = ''A'', slot = 7\<rparr>], ())"
    by (simp add: history_client_def example_client_def)
  from cursor_shared_between_accounts [OF h1 h2, of example_config "''wallet_token''"] h1 h2
  show ?thesis by simp
qed

text \<open>
  C7 as stated fails. A scan of the wallet sets the cursor that the scan of the token
  account reads: scanned alone, the token account is paged from the unset cursor; scanned
  after the wallet, it is paged from the wallet's newest id.
\<close>

theorem scan_changes_other_accounts_cursor:
  "''wallet'' \<noteq> ''wallet_token''
   \<and> last_signature example_state = None
   \<and> last_signature (check_account_transactions (history_client [\<lparr>signature = ''A'', slot = 7\<rparr>])
         example_config ''wallet'' example_state) = Some ''A''
   \<and> trace (check_account_transactions (history_client [\<lparr>signature = ''A'', slot = 7\<rparr>])
         example_config ''wallet_token'' example_state) =
       [Call_get_signatures_for_address ''wallet_token'' None 20, Log (Initial_signature_set ''A'')]
   \<and> trace (check_account_transactions (history_client [\<lparr>signature = ''A'', slot = 7\<rparr>])
         example_config ''wallet_token''
         (check_account_transactions (history_client [\<lparr>signature = ''A'', slot = 7\<rparr>])
            example_config ''wallet'' example_state)) =
       [Call_get_signatures_for_address ''wallet'' None 20, Log (Initial_signature_set ''A''),
        Call_get_signatures_for_address ''wallet_token'' (Some ''A'') 20]"
  by (simp add: scan_defs run_defs)

end
